theory Spec2Isabelle
  imports Main "HOL-Library.Word"
begin

unbundle bit_operations_syntax

section \<open>PCIe interrupt management: the data model\<close>

text \<open>
  This theory embeds \<^verbatim>\<open>kernel/dev/pcie/pcie_irqs.cpp\<close>: the per-device IRQ state, the
  shared legacy dispatcher, the MSI dispatcher and the driver-facing control plane.

  Conventions of the embedding.
  \<^item> Every function takes the machine state and returns the new one; a function that
    returns a value returns a pair (value, state).
  \<^item> Devices live in a store indexed by a device id (the address of the
    \<^verbatim>\<open>pcie_device_state_t\<close>); a shared legacy dispatcher is identified by the system
    vector it owns (\<^verbatim>\<open>FindLegacyIrqHandler\<close> keeps at most one per vector).
  \<^item> Every write to a configuration register, every call into the platform and every
    call of a driver callback is appended to a trace, in program order.
  \<^item> \<^verbatim>\<open>DEBUG_ASSERT\<close> is compiled out (the non-debug build); the conditions it names
    appear as hypotheses of the theorems that need them. The one assertion that the API
    itself can violate, the entry assertion of \<^verbatim>\<open>pcie_mask_unmask_irq_internal\<close>, is
    modelled for both builds: a failed assertion is a kernel panic, the result \<^verbatim>\<open>None\<close>.
  \<^item> Locks are not modelled: each function is one atomic step.
  \<^item> The \<^verbatim>\<open>uint\<close> counts and indices are only compared and never computed with, so
    they are natural numbers; registers are words of their width.
\<close>

datatype status_t =
    NO_ERROR
  | ERR_INTERNAL
  | ERR_NOT_SUPPORTED
  | ERR_NO_RESOURCES
  | ERR_NO_MEMORY
  | ERR_INVALID_ARGS
  | ERR_BAD_STATE
  | ERR_GENERIC

text \<open>\<^verbatim>\<open>PCIE_IRQ_MODE_OTHER\<close> stands for a value outside the enum (the \<^verbatim>\<open>default:\<close> branches).\<close>

datatype pcie_irq_mode_t =
    PCIE_IRQ_MODE_DISABLED
  | PCIE_IRQ_MODE_LEGACY
  | PCIE_IRQ_MODE_MSI
  | PCIE_IRQ_MODE_MSI_X
  | PCIE_IRQ_MODE_OTHER

text \<open>
  Modelled from the spec: the handler return contract, declared in \<^verbatim>\<open>dev/pcie_irqs.h\<close>,
  is a two-bit value with a bit MASK and a bit RESCHED.
\<close>

datatype pcie_irq_handler_retval_t =
    PCIE_IRQRET_NO_ACTION
  | PCIE_IRQRET_MASK
  | PCIE_IRQRET_RESCHED
  | PCIE_IRQRET_MASK_AND_RESCHED

fun ret_mask :: "pcie_irq_handler_retval_t \<Rightarrow> bool" where
  "ret_mask PCIE_IRQRET_MASK = True"
| "ret_mask PCIE_IRQRET_MASK_AND_RESCHED = True"
| "ret_mask _ = False"

fun ret_resched :: "pcie_irq_handler_retval_t \<Rightarrow> bool" where
  "ret_resched PCIE_IRQRET_RESCHED = True"
| "ret_resched PCIE_IRQRET_MASK_AND_RESCHED = True"
| "ret_resched _ = False"

datatype handler_return = INT_NO_RESCHEDULE | INT_RESCHEDULE

text \<open>
  A driver callback receives the device, the IRQ id and the driver's context and returns
  its verdict. The callback is opaque to the engine: the model records the call in the
  trace and uses the value it returns.
\<close>

type_synonym pcie_irq_handler_fn_t = "nat \<Rightarrow> nat \<Rightarrow> nat \<Rightarrow> pcie_irq_handler_retval_t"

record pcie_irq_handler_state_t =
  hs_dev :: "nat option"
  pci_irq_id :: nat
  handler :: "pcie_irq_handler_fn_t option"
  ctx :: nat
  masked :: bool

text \<open>The slot that \<^verbatim>\<open>memset(.., 0, ..)\<close> and \<^verbatim>\<open>calloc\<close> produce.\<close>

definition zero_handler_state :: pcie_irq_handler_state_t where
  "zero_handler_state =
     \<lparr>hs_dev = None, pci_irq_id = 0, handler = None, ctx = 0, masked = False\<rparr>"

text \<open>
  \<^verbatim>\<open>dev->irq.handlers\<close> is null, points to the embedded singleton slot, or points to a
  heap array.
\<close>

datatype handlers_ptr =
    HANDLERS_NULL
  | HANDLERS_SINGLETON
  | HANDLERS_HEAP "pcie_irq_handler_state_t list"

record pcie_msi_block_t =
  allocated :: bool
  num_irq :: nat
  tgt_addr :: "64 word"
  tgt_data :: "32 word"

text \<open>
  The registers of the MSI capability. The 32-bit and the 64-bit form keep the data
  register at different offsets; the model names them apart.
\<close>

record pcie_cap_msi_t =
  ctrl :: "16 word"
  addr :: "32 word"
  addr_upper :: "32 word"
  data_32bit :: "16 word"
  data_64bit :: "16 word"
  mask_bits :: "32 word"

text \<open>
  \<^verbatim>\<open>msi_cfg\<close> and \<^verbatim>\<open>msi_pvm_mask_reg\<close> say whether the pointers
  \<^verbatim>\<open>irq.msi.cfg\<close> and \<^verbatim>\<open>irq.msi.pvm_mask_reg\<close> are non-null; the registers they
  point to are in \<^verbatim>\<open>cap_msi\<close>.
\<close>

record pcie_device_state_t =
  plugged_in :: bool
  disabled :: bool
  cfg_command :: "16 word"
  cfg_status :: "16 word"
  irq_mode :: pcie_irq_mode_t
  irq_handlers :: handlers_ptr
  irq_handler_count :: nat
  irq_registered_handler_count :: nat
  irq_singleton_handler :: pcie_irq_handler_state_t
  legacy_pin :: nat
  legacy_shared_handler :: "nat option"
  msi_cfg :: bool
  cap_msi :: pcie_cap_msi_t
  msi_is64bit :: bool
  msi_max_irqs :: nat
  msi_pvm_mask_reg :: bool
  msi_irq_block :: pcie_msi_block_t

datatype event =
    Cfg_write_command nat "16 word"
  | Msi_write_ctrl nat "16 word"
  | Msi_write_addr nat "32 word"
  | Msi_write_addr_upper nat "32 word"
  | Msi_write_data_32bit nat "16 word"
  | Msi_write_data_64bit nat "16 word"
  | Msi_write_pvm_mask nat "32 word"
  | Plat_AllocMsiBlock nat nat bool bool status_t
  | Plat_FreeMsiBlock nat
  | Plat_RegisterMsiHandler nat nat "nat option"
  | Plat_MaskUnmaskMsi nat nat bool
  | Plat_mask_interrupt nat
  | Plat_unmask_interrupt nat
  | Plat_register_int_handler nat bool
  | Heap_calloc nat nat bool
  | Heap_free nat
  | Call_handler nat nat nat

text \<open>
  The machine: the device store, the device list of every shared legacy dispatcher, the
  mask state of every system vector at the interrupt controller, and the trace.
\<close>

record machine =
  devices :: "nat \<Rightarrow> pcie_device_state_t"
  device_handler_list :: "nat \<Rightarrow> nat list"
  int_masked :: "nat \<Rightarrow> bool"
  trace :: "event list"

text \<open>
  The platform and the allocator are external: what they answer is a parameter.
  \<^verbatim>\<open>AllocMsiBlock\<close> receives the request and the caller's block and answers a status
  and the block it leaves behind; \<^verbatim>\<open>FreeMsiBlock\<close> answers the block it leaves behind;
  \<^verbatim>\<open>calloc_succeeds n\<close> says whether \<^verbatim>\<open>calloc\<close> of \<^verbatim>\<open>n\<close> slots returns memory.
\<close>

record platform =
  supports_msi :: bool
  supports_msi_masking :: bool
  AllocMsiBlock :: "nat \<Rightarrow> bool \<Rightarrow> bool \<Rightarrow> pcie_msi_block_t \<Rightarrow> status_t \<times> pcie_msi_block_t"
  FreeMsiBlock :: "pcie_msi_block_t \<Rightarrow> pcie_msi_block_t"
  calloc_succeeds :: "nat \<Rightarrow> bool"

subsection \<open>Constants and macros of the configuration space\<close>

text \<open>
  Modelled from the spec: the constants and macros below are declared in
  \<^verbatim>\<open>dev/pcie_constants.h\<close>, \<^verbatim>\<open>dev/pcie_caps.h\<close> and \<^verbatim>\<open>pow2.h\<close>. The command register has
  INT_DISABLE at bit 10, the status register INT_STATUS at bit 3; the MSI control
  register has ENABLE at bit 0 and the three-bit Multi-Message-Enable field at bits 4 to 6;
  a device has at most 32 MSI vectors; \<^verbatim>\<open>log2_uint_ceil\<close> is the rounded-up binary
  logarithm.
\<close>

definition PCIE_CFG_COMMAND_INT_DISABLE :: "16 word" where
  "PCIE_CFG_COMMAND_INT_DISABLE = 0x0400"

definition PCIE_CFG_STATUS_INT_STS :: "16 word" where
  "PCIE_CFG_STATUS_INT_STS = 0x0008"

definition PCIE_MAX_MSI_IRQS :: nat where
  "PCIE_MAX_MSI_IRQS = 32"

definition PCIE_CAP_MSI_CTRL_SET_ENB :: "bool \<Rightarrow> 16 word \<Rightarrow> 16 word" where
  "PCIE_CAP_MSI_CTRL_SET_ENB enb c = (c AND NOT 0x0001) OR (if enb then 0x0001 else 0)"

definition PCIE_CAP_MSI_CTRL_SET_MME :: "nat \<Rightarrow> 16 word \<Rightarrow> 16 word" where
  "PCIE_CAP_MSI_CTRL_SET_MME v c = (c AND NOT 0x0070) OR push_bit 4 (of_nat v AND 0x7)"

fun log2_uint_ceil :: "nat \<Rightarrow> nat" where
  "log2_uint_ceil n = (if n \<le> 1 then 0 else Suc (log2_uint_ceil ((n + 1) div 2)))"

declare log2_uint_ceil.simps [simp del]

subsection \<open>Primitive steps\<close>

definition emit :: "event \<Rightarrow> machine \<Rightarrow> machine" where
  "emit e s = s\<lparr>trace := trace s @ [e]\<rparr>"

definition upd_dev :: "nat \<Rightarrow> (pcie_device_state_t \<Rightarrow> pcie_device_state_t) \<Rightarrow> machine \<Rightarrow> machine" where
  "upd_dev d f s = s\<lparr>devices := (devices s)(d := f (devices s d))\<rparr>"

text \<open>
  \<^verbatim>\<open>&dev->irq.handlers[i]\<close>. The source reads a slot only below
  \<^verbatim>\<open>handler_count\<close>; outside the table the C program has no defined behaviour, the model
  finds no slot and writes nothing, and every theorem about a slot assumes it exists.
\<close>

fun handlers_is_null :: "handlers_ptr \<Rightarrow> bool" where
  "handlers_is_null HANDLERS_NULL = True"
| "handlers_is_null _ = False"

fun handler_installed :: "pcie_irq_handler_fn_t option \<Rightarrow> bool" where
  "handler_installed None = False"
| "handler_installed (Some _) = True"

definition get_hstate :: "nat \<Rightarrow> pcie_device_state_t \<Rightarrow> pcie_irq_handler_state_t option" where
  "get_hstate i v =
     (case irq_handlers v of
        HANDLERS_NULL \<Rightarrow> None
      | HANDLERS_SINGLETON \<Rightarrow> (if i = 0 then Some (irq_singleton_handler v) else None)
      | HANDLERS_HEAP hs \<Rightarrow> (if i < length hs then Some (hs ! i) else None))"

definition upd_hstate ::
  "nat \<Rightarrow> (pcie_irq_handler_state_t \<Rightarrow> pcie_irq_handler_state_t) \<Rightarrow>
   pcie_device_state_t \<Rightarrow> pcie_device_state_t" where
  "upd_hstate i f v =
     (case irq_handlers v of
        HANDLERS_NULL \<Rightarrow> v
      | HANDLERS_SINGLETON \<Rightarrow>
          (if i = 0 then v\<lparr>irq_singleton_handler := f (irq_singleton_handler v)\<rparr> else v)
      | HANDLERS_HEAP hs \<Rightarrow>
          (if i < length hs then v\<lparr>irq_handlers := HANDLERS_HEAP (hs[i := f (hs ! i)])\<rparr> else v))"

definition write_command :: "nat \<Rightarrow> 16 word \<Rightarrow> machine \<Rightarrow> machine" where
  "write_command d w s = emit (Cfg_write_command d w) (upd_dev d (\<lambda>v. v\<lparr>cfg_command := w\<rparr>) s)"

definition write_msi_ctrl :: "nat \<Rightarrow> 16 word \<Rightarrow> machine \<Rightarrow> machine" where
  "write_msi_ctrl d w s =
     emit (Msi_write_ctrl d w) (upd_dev d (\<lambda>v. v\<lparr>cap_msi := (cap_msi v)\<lparr>ctrl := w\<rparr>\<rparr>) s)"

definition write_msi_addr :: "nat \<Rightarrow> 32 word \<Rightarrow> machine \<Rightarrow> machine" where
  "write_msi_addr d w s =
     emit (Msi_write_addr d w) (upd_dev d (\<lambda>v. v\<lparr>cap_msi := (cap_msi v)\<lparr>addr := w\<rparr>\<rparr>) s)"

definition write_msi_addr_upper :: "nat \<Rightarrow> 32 word \<Rightarrow> machine \<Rightarrow> machine" where
  "write_msi_addr_upper d w s =
     emit (Msi_write_addr_upper d w)
       (upd_dev d (\<lambda>v. v\<lparr>cap_msi := (cap_msi v)\<lparr>addr_upper := w\<rparr>\<rparr>) s)"

definition write_msi_data_32bit :: "nat \<Rightarrow> 16 word \<Rightarrow> machine \<Rightarrow> machine" where
  "write_msi_data_32bit d w s =
     emit (Msi_write_data_32bit d w)
       (upd_dev d (\<lambda>v. v\<lparr>cap_msi := (cap_msi v)\<lparr>data_32bit := w\<rparr>\<rparr>) s)"

definition write_msi_data_64bit :: "nat \<Rightarrow> 16 word \<Rightarrow> machine \<Rightarrow> machine" where
  "write_msi_data_64bit d w s =
     emit (Msi_write_data_64bit d w)
       (upd_dev d (\<lambda>v. v\<lparr>cap_msi := (cap_msi v)\<lparr>data_64bit := w\<rparr>\<rparr>) s)"

definition write_pvm_mask :: "nat \<Rightarrow> 32 word \<Rightarrow> machine \<Rightarrow> machine" where
  "write_pvm_mask d w s =
     emit (Msi_write_pvm_mask d w)
       (upd_dev d (\<lambda>v. v\<lparr>cap_msi := (cap_msi v)\<lparr>mask_bits := w\<rparr>\<rparr>) s)"

definition mask_interrupt :: "nat \<Rightarrow> machine \<Rightarrow> machine" where
  "mask_interrupt irq s = emit (Plat_mask_interrupt irq) (s\<lparr>int_masked := (int_masked s)(irq := True)\<rparr>)"

definition unmask_interrupt :: "nat \<Rightarrow> machine \<Rightarrow> machine" where
  "unmask_interrupt irq s =
     emit (Plat_unmask_interrupt irq) (s\<lparr>int_masked := (int_masked s)(irq := False)\<rparr>)"

definition register_int_handler :: "nat \<Rightarrow> bool \<Rightarrow> machine \<Rightarrow> machine" where
  "register_int_handler irq installed s = emit (Plat_register_int_handler irq installed) s"

section \<open>Helper routines common to all IRQ modes\<close>

definition pcie_reset_common_irq_bookkeeping :: "nat \<Rightarrow> machine \<Rightarrow> machine" where
  "pcie_reset_common_irq_bookkeeping d s =
     (let s1 = (if irq_handler_count (devices s d) > 1 then emit (Heap_free d) s else s)
      in upd_dev d (\<lambda>v. v\<lparr>irq_singleton_handler := zero_handler_state,
                            irq_mode := PCIE_IRQ_MODE_DISABLED,
                            irq_handlers := HANDLERS_NULL,
                            irq_handler_count := 0\<rparr>) s1)"

text \<open>The loop at \<^verbatim>\<open>finish_bookkeeping\<close>: every slot gets its back-pointer and its id.\<close>

definition finish_bookkeeping :: "nat \<Rightarrow> machine \<Rightarrow> machine" where
  "finish_bookkeeping d s =
     fold (\<lambda>i. upd_dev d (upd_hstate i (\<lambda>h. h\<lparr>hs_dev := Some d, pci_irq_id := i\<rparr>)))
       [0..<irq_handler_count (devices s d)] s"

definition pcie_alloc_irq_handlers :: "platform \<Rightarrow> nat \<Rightarrow> nat \<Rightarrow> machine \<Rightarrow> status_t \<times> machine" where
  "pcie_alloc_irq_handlers p d requested_irqs s =
     (if requested_irqs = 1 then
        (NO_ERROR,
         finish_bookkeeping d
           (upd_dev d (\<lambda>v. v\<lparr>irq_singleton_handler := zero_handler_state,
                                irq_handlers := HANDLERS_SINGLETON,
                                irq_handler_count := 1\<rparr>) s))
      else if \<not> calloc_succeeds p requested_irqs then
        (ERR_NO_MEMORY,
         upd_dev d (\<lambda>v. v\<lparr>irq_handlers := HANDLERS_NULL\<rparr>)
           (emit (Heap_calloc d requested_irqs False) s))
      else
        (NO_ERROR,
         finish_bookkeeping d
           (upd_dev d (\<lambda>v. v\<lparr>irq_handlers := HANDLERS_HEAP (replicate requested_irqs zero_handler_state),
                                irq_handler_count := requested_irqs\<rparr>)
              (emit (Heap_calloc d requested_irqs True) s))))"

section \<open>Legacy IRQ mode\<close>



text \<open>
  The body of the loop of \<^verbatim>\<open>SharedLegacyIrqHandler::Handler\<close> for one device of the
  list; \<^verbatim>\<open>need_resched\<close> is threaded through.
\<close>

definition legacy_service_device :: "nat \<Rightarrow> bool \<times> machine \<Rightarrow> bool \<times> machine" where
  "legacy_service_device d acc =
     (let need_resched = fst acc; s = snd acc; v = devices s d;
          command = cfg_command v; status = cfg_status v
      in if status AND PCIE_CFG_STATUS_INT_STS \<noteq> 0 \<and> command AND PCIE_CFG_COMMAND_INT_DISABLE = 0 then
           (case get_hstate 0 v of
              Some hstate \<Rightarrow>
                (let r = (case handler hstate of
                            Some f \<Rightarrow>
                              (if \<not> masked hstate
                               then (f d 0 (ctx hstate), emit (Call_handler d 0 (ctx hstate)) s)
                               else (PCIE_IRQRET_MASK, s))
                          | None \<Rightarrow> (PCIE_IRQRET_MASK, s));
                     irq_ret = fst r; s1 = snd r;
                     need_resched1 = (case handler hstate of
                                        Some f \<Rightarrow> need_resched \<or> ret_resched irq_ret
                                      | None \<Rightarrow> need_resched)
                 in if ret_mask irq_ret then
                      (need_resched1,
                       write_command d (cfg_command (devices s1 d) OR PCIE_CFG_COMMAND_INT_DISABLE)
                         (upd_dev d (upd_hstate 0 (\<lambda>h. h\<lparr>masked := True\<rparr>)) s1))
                    else (need_resched1, s1))
            | None \<Rightarrow>
                (need_resched,
                 write_command d (cfg_command (devices s d) OR PCIE_CFG_COMMAND_INT_DISABLE) s))
         else (need_resched, s))"

definition SharedLegacyIrqHandler_Handler :: "nat \<Rightarrow> machine \<Rightarrow> handler_return \<times> machine" where
  "SharedLegacyIrqHandler_Handler irq s =
     (if device_handler_list s irq = [] then (INT_NO_RESCHEDULE, mask_interrupt irq s)
      else
        (let r = fold legacy_service_device (device_handler_list s irq) (False, s)
         in (if fst r then INT_RESCHEDULE else INT_NO_RESCHEDULE, snd r)))"

definition SharedLegacyIrqHandler_AddDevice :: "nat \<Rightarrow> nat \<Rightarrow> machine \<Rightarrow> machine" where
  "SharedLegacyIrqHandler_AddDevice irq d s =
     (let s1 = write_command d (cfg_command (devices s d) OR PCIE_CFG_COMMAND_INT_DISABLE) s;
          first_device = (device_handler_list s1 irq = []);
          s2 = s1\<lparr>device_handler_list :=
                    (device_handler_list s1)(irq := device_handler_list s1 irq @ [d])\<rparr>
      in if first_device then unmask_interrupt irq s2 else s2)"

definition SharedLegacyIrqHandler_RemoveDevice :: "nat \<Rightarrow> nat \<Rightarrow> machine \<Rightarrow> machine" where
  "SharedLegacyIrqHandler_RemoveDevice irq d s =
     (let s1 = write_command d (cfg_command (devices s d) OR PCIE_CFG_COMMAND_INT_DISABLE) s;
          s2 = s1\<lparr>device_handler_list :=
                    (device_handler_list s1)(irq := remove1 d (device_handler_list s1 irq))\<rparr>
      in if device_handler_list s2 irq = [] then mask_interrupt irq s2 else s2)"

definition pcie_mask_unmask_legacy_irq :: "nat \<Rightarrow> bool \<Rightarrow> machine \<Rightarrow> status_t \<times> machine" where
  "pcie_mask_unmask_legacy_irq d mask_req s =
     (let v = devices s d
      in if handlers_is_null (irq_handlers v) \<or> irq_handler_count v = 0 then (ERR_INVALID_ARGS, s)
         else
           (let val = (if mask_req then cfg_command v OR PCIE_CFG_COMMAND_INT_DISABLE
                       else cfg_command v AND NOT PCIE_CFG_COMMAND_INT_DISABLE);
                s1 = write_command d val s
            in (NO_ERROR, upd_dev d (upd_hstate 0 (\<lambda>h. h\<lparr>masked := mask_req\<rparr>)) s1)))"

text \<open>
  \<^verbatim>\<open>dev->irq.legacy.shared_handler\<close> is non-null for every device with a pin
  (\<^verbatim>\<open>pcie_init_device_irq_state\<close> fails otherwise); the model skips the call through a
  null pointer.
\<close>

definition pcie_leave_legacy_irq_mode :: "nat \<Rightarrow> machine \<Rightarrow> machine" where
  "pcie_leave_legacy_irq_mode d s =
     (let s1 = snd (pcie_mask_unmask_legacy_irq d True s);
          s2 = (case legacy_shared_handler (devices s1 d) of
                  Some irq \<Rightarrow> SharedLegacyIrqHandler_RemoveDevice irq d s1
                | None \<Rightarrow> s1)
      in pcie_reset_common_irq_bookkeeping d s2)"

definition pcie_enter_legacy_irq_mode :: "platform \<Rightarrow> nat \<Rightarrow> nat \<Rightarrow> machine \<Rightarrow> status_t \<times> machine" where
  "pcie_enter_legacy_irq_mode p d requested_irqs s =
     (if legacy_pin (devices s d) = 0 \<or> requested_irqs > 1 then (ERR_NOT_SUPPORTED, s)
      else
        (let s1 = snd (pcie_alloc_irq_handlers p d requested_irqs s);
             s2 = upd_dev d (\<lambda>v. v\<lparr>irq_mode := PCIE_IRQ_MODE_LEGACY\<rparr>) s1;
             s3 = (case legacy_shared_handler (devices s2 d) of
                     Some irq \<Rightarrow> SharedLegacyIrqHandler_AddDevice irq d s2
                   | None \<Rightarrow> s2)
         in (NO_ERROR, s3)))"

section \<open>MSI IRQ mode\<close>

definition pcie_set_msi_enb :: "nat \<Rightarrow> bool \<Rightarrow> machine \<Rightarrow> machine" where
  "pcie_set_msi_enb d enb s =
     write_msi_ctrl d (PCIE_CAP_MSI_CTRL_SET_ENB enb (ctrl (cap_msi (devices s d)))) s"

text \<open>
  The shift \<^verbatim>\<open>(uint32_t)1 << irq_id\<close> is \<^verbatim>\<open>push_bit irq_id 1\<close>; the source asserts
  \<^verbatim>\<open>irq_id < PCIE_MAX_MSI_IRQS\<close> before it.
\<close>

definition pcie_mask_unmask_msi_irq_locked ::
  "platform \<Rightarrow> nat \<Rightarrow> nat \<Rightarrow> bool \<Rightarrow> machine \<Rightarrow> bool \<times> machine" where
  "pcie_mask_unmask_msi_irq_locked p d irq_id mask_req s =
     (let s1 = (if msi_pvm_mask_reg (devices s d) then
                  (let val = mask_bits (cap_msi (devices s d))
                   in write_pvm_mask d
                        (if mask_req then val OR push_bit irq_id 1
                         else val AND NOT (push_bit irq_id 1)) s)
                else s);
          s2 = (if supports_msi_masking p then emit (Plat_MaskUnmaskMsi d irq_id mask_req) s1
                else s1);
          ret = (case get_hstate irq_id (devices s2 d) of Some h \<Rightarrow> masked h | None \<Rightarrow> False)
      in (ret, upd_dev d (upd_hstate irq_id (\<lambda>h. h\<lparr>masked := mask_req\<rparr>)) s2))"

definition pcie_mask_unmask_msi_irq ::
  "platform \<Rightarrow> nat \<Rightarrow> nat \<Rightarrow> bool \<Rightarrow> machine \<Rightarrow> status_t \<times> machine" where
  "pcie_mask_unmask_msi_irq p d irq_id mask_req s =
     (if irq_id \<ge> irq_handler_count (devices s d) then (ERR_INVALID_ARGS, s)
      else if mask_req \<and> \<not> supports_msi_masking p \<and> \<not> msi_pvm_mask_reg (devices s d)
      then (ERR_NOT_SUPPORTED, s)
      else (NO_ERROR, snd (pcie_mask_unmask_msi_irq_locked p d irq_id mask_req s)))"

definition pcie_mask_all_msi_vectors :: "platform \<Rightarrow> nat \<Rightarrow> machine \<Rightarrow> machine" where
  "pcie_mask_all_msi_vectors p d s =
     (let s1 = fold (\<lambda>i t. snd (pcie_mask_unmask_msi_irq p d i True t))
                 [0..<irq_handler_count (devices s d)] s
      in if msi_pvm_mask_reg (devices s1 d) then write_pvm_mask d 0xFFFFFFFF s1 else s1)"

definition pcie_set_msi_target :: "platform \<Rightarrow> nat \<Rightarrow> 64 word \<Rightarrow> 32 word \<Rightarrow> machine \<Rightarrow> machine" where
  "pcie_set_msi_target p d t_addr t_data s =
     (let s1 = pcie_set_msi_enb d False s;
          s2 = pcie_mask_all_msi_vectors p d s1;
          s3 = write_msi_addr d (ucast (t_addr AND 0xFFFFFFFF)) s2
      in if msi_is64bit (devices s3 d) then
           write_msi_data_64bit d (ucast (t_data AND 0xFFFF))
             (write_msi_addr_upper d (ucast (drop_bit 32 t_addr)) s3)
         else write_msi_data_32bit d (ucast (t_data AND 0xFFFF)) s3)"

text \<open>
  The platform calls \<^verbatim>\<open>pcie_msi_irq_handler\<close> with the cookie registered for the
  vector, the address of slot \<^verbatim>\<open>k\<close> of device \<^verbatim>\<open>d\<close>; the slot's back-pointer is that
  device. The vector is named by the slot's \<^verbatim>\<open>pci_irq_id\<close>.
\<close>

definition pcie_msi_irq_handler :: "platform \<Rightarrow> nat \<Rightarrow> nat \<Rightarrow> machine \<Rightarrow> handler_return \<times> machine" where
  "pcie_msi_irq_handler p d k s =
     (case get_hstate k (devices s d) of
        None \<Rightarrow> (INT_NO_RESCHEDULE, s)
      | Some hstate \<Rightarrow>
          (let r = (if supports_msi_masking p \<or> msi_pvm_mask_reg (devices s d)
                    then pcie_mask_unmask_msi_irq_locked p d (pci_irq_id hstate) True s
                    else (False, s));
               was_masked = fst r; s1 = snd r
           in case handler hstate of
                None \<Rightarrow> (INT_NO_RESCHEDULE, s1)
              | Some f \<Rightarrow>
                  (if was_masked then (INT_NO_RESCHEDULE, s1)
                   else
                     (let irq_ret = f d (pci_irq_id hstate) (ctx hstate);
                          s2 = emit (Call_handler d (pci_irq_id hstate) (ctx hstate)) s1;
                          s3 = (if \<not> ret_mask irq_ret
                                then snd (pcie_mask_unmask_msi_irq_locked p d (pci_irq_id hstate) False s2)
                                else s2)
                      in (if ret_resched irq_ret then INT_RESCHEDULE else INT_NO_RESCHEDULE, s3)))))"

definition pcie_free_msi_block :: "platform \<Rightarrow> nat \<Rightarrow> machine \<Rightarrow> machine" where
  "pcie_free_msi_block p d s =
     (if \<not> allocated (msi_irq_block (devices s d)) then s
      else
        (let s1 = fold (\<lambda>i t. emit (Plat_RegisterMsiHandler d i None)
                               (if supports_msi_masking p then emit (Plat_MaskUnmaskMsi d i True) t
                                else t))
                    [0..<num_irq (msi_irq_block (devices s d))] s
         in emit (Plat_FreeMsiBlock d)
              (upd_dev d (\<lambda>v. v\<lparr>msi_irq_block := FreeMsiBlock p (msi_irq_block v)\<rparr>) s1)))"

definition pcie_set_msi_multi_message_enb :: "nat \<Rightarrow> nat \<Rightarrow> machine \<Rightarrow> machine" where
  "pcie_set_msi_multi_message_enb d requested_irqs s =
     (let log2 = log2_uint_ceil requested_irqs
      in write_msi_ctrl d (PCIE_CAP_MSI_CTRL_SET_MME log2 (ctrl (cap_msi (devices s d)))) s)"

definition pcie_leave_msi_irq_mode :: "platform \<Rightarrow> nat \<Rightarrow> machine \<Rightarrow> machine" where
  "pcie_leave_msi_irq_mode p d s =
     pcie_reset_common_irq_bookkeeping d (pcie_free_msi_block p d (pcie_set_msi_target p d 0 0 s))"

text \<open>
  \<^verbatim>\<open>pcie_enter_msi_irq_mode\<close>; the two \<^verbatim>\<open>goto bailout\<close> are the two calls of
  \<^verbatim>\<open>pcie_leave_msi_irq_mode\<close>.
\<close>

definition pcie_enter_msi_irq_mode :: "platform \<Rightarrow> nat \<Rightarrow> nat \<Rightarrow> machine \<Rightarrow> status_t \<times> machine" where
  "pcie_enter_msi_irq_mode p d requested_irqs s =
     (if \<not> msi_cfg (devices s d) \<or> \<not> supports_msi p \<or> requested_irqs > msi_max_irqs (devices s d)
      then (ERR_NOT_SUPPORTED, s)
      else
        (let a = AllocMsiBlock p requested_irqs (msi_is64bit (devices s d)) False
                   (msi_irq_block (devices s d));
             s1 = emit (Plat_AllocMsiBlock d requested_irqs (msi_is64bit (devices s d)) False (fst a))
                    (upd_dev d (\<lambda>v. v\<lparr>msi_irq_block := snd a\<rparr>) s)
         in if fst a \<noteq> NO_ERROR then (fst a, pcie_leave_msi_irq_mode p d s1)
            else
              (let h = pcie_alloc_irq_handlers p d requested_irqs s1
               in if fst h \<noteq> NO_ERROR then (fst h, pcie_leave_msi_irq_mode p d (snd h))
                  else
                    (let s2 = upd_dev d (\<lambda>v. v\<lparr>irq_mode := PCIE_IRQ_MODE_MSI\<rparr>) (snd h);
                         s3 = pcie_set_msi_target p d
                                (tgt_addr (msi_irq_block (devices s2 d)))
                                (tgt_data (msi_irq_block (devices s2 d))) s2;
                         s4 = pcie_set_msi_multi_message_enb d requested_irqs s3;
                         s5 = fold (\<lambda>i. emit (Plat_RegisterMsiHandler d i (Some i)))
                                [0..<irq_handler_count (devices s4 d)] s4
                     in (NO_ERROR, pcie_set_msi_enb d True s5)))))"

section \<open>The kernel-facing API\<close>

definition pcie_set_irq_mode_internal ::
  "platform \<Rightarrow> nat \<Rightarrow> pcie_irq_mode_t \<Rightarrow> nat \<Rightarrow> machine \<Rightarrow> status_t \<times> machine" where
  "pcie_set_irq_mode_internal p d m requested_irqs s =
     (if m = PCIE_IRQ_MODE_DISABLED then
        (case irq_mode (devices s d) of
           PCIE_IRQ_MODE_DISABLED \<Rightarrow> (NO_ERROR, s)
         | PCIE_IRQ_MODE_LEGACY \<Rightarrow> (NO_ERROR, pcie_leave_legacy_irq_mode d s)
         | PCIE_IRQ_MODE_MSI \<Rightarrow> (NO_ERROR, pcie_leave_msi_irq_mode p d s)
         | PCIE_IRQ_MODE_MSI_X \<Rightarrow> (ERR_NOT_SUPPORTED, s)
         | PCIE_IRQ_MODE_OTHER \<Rightarrow> (ERR_INTERNAL, s))
      else if requested_irqs < 1 then (ERR_INVALID_ARGS, s)
      else if irq_mode (devices s d) \<noteq> PCIE_IRQ_MODE_DISABLED then (ERR_BAD_STATE, s)
      else
        (case m of
           PCIE_IRQ_MODE_LEGACY \<Rightarrow> pcie_enter_legacy_irq_mode p d requested_irqs s
         | PCIE_IRQ_MODE_MSI \<Rightarrow> pcie_enter_msi_irq_mode p d requested_irqs s
         | PCIE_IRQ_MODE_MSI_X \<Rightarrow> (ERR_NOT_SUPPORTED, s)
         | _ \<Rightarrow> (ERR_INVALID_ARGS, s)))"

text \<open>
  The source asserts \<^verbatim>\<open>registered_handler_count\<close> to be non-zero before it decrements it;
  on natural numbers the decrement of 0 is 0.
\<close>

definition pcie_register_irq_handler_internal ::
  "nat \<Rightarrow> nat \<Rightarrow> pcie_irq_handler_fn_t option \<Rightarrow> nat \<Rightarrow> machine \<Rightarrow> status_t \<times> machine" where
  "pcie_register_irq_handler_internal d irq_id new_handler new_ctx s =
     (if irq_mode (devices s d) = PCIE_IRQ_MODE_DISABLED then (ERR_BAD_STATE, s)
      else if irq_id \<ge> irq_handler_count (devices s d) then (ERR_INVALID_ARGS, s)
      else
        (let installed = (case get_hstate irq_id (devices s d) of
                            Some h \<Rightarrow> handler_installed (handler h)
                          | None \<Rightarrow> False);
             s1 = (if installed then
                     (if \<not> handler_installed new_handler
                      then upd_dev d (\<lambda>v. v\<lparr>irq_registered_handler_count :=
                                                 irq_registered_handler_count v - 1\<rparr>) s
                      else s)
                   else
                     (if handler_installed new_handler
                      then upd_dev d (\<lambda>v. v\<lparr>irq_registered_handler_count :=
                                                 irq_registered_handler_count v + 1\<rparr>) s
                      else s))
         in (NO_ERROR,
             upd_dev d (upd_hstate irq_id
               (\<lambda>h. h\<lparr>handler := new_handler,
                        ctx := (if handler_installed new_handler then new_ctx else 0)\<rparr>)) s1)))"

text \<open>
  \<^verbatim>\<open>pcie_mask_unmask_irq_internal\<close> opens with \<^verbatim>\<open>DEBUG_ASSERT(dev && dev->plugged_in)\<close>
  and \<^verbatim>\<open>DEBUG_ASSERT(dev->dev_lock.IsHeld())\<close>; the caller holds the lock. Its statements
  after the assertions are \<^verbatim>\<open>pcie_mask_unmask_irq_internal_body\<close>. The macro is not under
  \<^verbatim>\<open>src/\<close>: whether it is compiled in is the parameter \<^verbatim>\<open>asserts\<close>. Where it is
  compiled in and the device is not plugged in, the kernel panics.
\<close>

definition pcie_mask_unmask_irq_internal_body ::
  "platform \<Rightarrow> nat \<Rightarrow> nat \<Rightarrow> bool \<Rightarrow> machine \<Rightarrow> status_t \<times> machine" where
  "pcie_mask_unmask_irq_internal_body p d irq_id mask_req s =
     (if irq_mode (devices s d) = PCIE_IRQ_MODE_DISABLED then (ERR_BAD_STATE, s)
      else if irq_id \<ge> irq_handler_count (devices s d) then (ERR_INVALID_ARGS, s)
      else if \<not> mask_req \<and>
              (case get_hstate irq_id (devices s d) of
                 Some h \<Rightarrow> \<not> handler_installed (handler h)
               | None \<Rightarrow> True)
      then (ERR_BAD_STATE, s)
      else
        (case irq_mode (devices s d) of
           PCIE_IRQ_MODE_LEGACY \<Rightarrow> pcie_mask_unmask_legacy_irq d mask_req s
         | PCIE_IRQ_MODE_MSI \<Rightarrow> pcie_mask_unmask_msi_irq p d irq_id mask_req s
         | PCIE_IRQ_MODE_MSI_X \<Rightarrow> (ERR_NOT_SUPPORTED, s)
         | _ \<Rightarrow> (ERR_INTERNAL, s)))"

definition pcie_mask_unmask_irq_internal ::
  "bool \<Rightarrow> platform \<Rightarrow> nat \<Rightarrow> nat \<Rightarrow> bool \<Rightarrow> machine \<Rightarrow> (status_t \<times> machine) option" where
  "pcie_mask_unmask_irq_internal asserts p d irq_id mask_req s =
     (if asserts \<and> \<not> plugged_in (devices s d) then None
      else Some (pcie_mask_unmask_irq_internal_body p d irq_id mask_req s))"

definition pcie_set_irq_mode ::
  "platform \<Rightarrow> nat \<Rightarrow> pcie_irq_mode_t \<Rightarrow> nat \<Rightarrow> machine \<Rightarrow> status_t \<times> machine" where
  "pcie_set_irq_mode p d m requested_irqs s =
     (if m = PCIE_IRQ_MODE_DISABLED \<or> (plugged_in (devices s d) \<and> \<not> disabled (devices s d))
      then pcie_set_irq_mode_internal p d m requested_irqs s
      else (ERR_BAD_STATE, s))"

definition pcie_register_irq_handler ::
  "nat \<Rightarrow> nat \<Rightarrow> pcie_irq_handler_fn_t option \<Rightarrow> nat \<Rightarrow> machine \<Rightarrow> status_t \<times> machine" where
  "pcie_register_irq_handler d irq_id new_handler new_ctx s =
     (if plugged_in (devices s d) \<and> \<not> disabled (devices s d)
      then pcie_register_irq_handler_internal d irq_id new_handler new_ctx s
      else (ERR_BAD_STATE, s))"

text \<open>
  \<^verbatim>\<open>pcie_mask_unmask_irq\<close>, in either build: \<^verbatim>\<open>None\<close> is the panic of a failed
  assertion.
\<close>

definition pcie_mask_unmask_irq_checked ::
  "bool \<Rightarrow> platform \<Rightarrow> nat \<Rightarrow> nat \<Rightarrow> bool \<Rightarrow> machine \<Rightarrow> (status_t \<times> machine) option" where
  "pcie_mask_unmask_irq_checked asserts p d irq_id mask_req s =
     (if mask_req \<or> (plugged_in (devices s d) \<and> \<not> disabled (devices s d))
      then pcie_mask_unmask_irq_internal asserts p d irq_id mask_req s
      else Some (ERR_BAD_STATE, s))"

text \<open>
  \<^verbatim>\<open>pcie_mask_unmask_irq\<close> in the build with the assertions compiled out, where the
  internal routine is its body and always returns.
\<close>

definition pcie_mask_unmask_irq ::
  "platform \<Rightarrow> nat \<Rightarrow> nat \<Rightarrow> bool \<Rightarrow> machine \<Rightarrow> status_t \<times> machine" where
  "pcie_mask_unmask_irq p d irq_id mask_req s =
     (if mask_req \<or> (plugged_in (devices s d) \<and> \<not> disabled (devices s d))
      then pcie_mask_unmask_irq_internal_body p d irq_id mask_req s
      else (ERR_BAD_STATE, s))"

section \<open>Notions the properties are stated with\<close>


text \<open>
  What a legacy dispatch pass is said to do with one device, in the words of the
  specification. A device is asserting when its INT_STATUS is set and its INT_DISABLE is
  clear; its callback is invoked when it is asserting, a handler is installed and the slot
  is not masked; it is force-masked when it is asserting and either the invoked handler
  answered MASK or no handler was invoked (none installed, or the slot already masked).
\<close>

definition legacy_asserting :: "pcie_device_state_t \<Rightarrow> bool" where
  "legacy_asserting v =
     (cfg_status v AND PCIE_CFG_STATUS_INT_STS \<noteq> 0 \<and>
      cfg_command v AND PCIE_CFG_COMMAND_INT_DISABLE = 0)"

definition legacy_invoked :: "pcie_device_state_t \<Rightarrow> bool" where
  "legacy_invoked v =
     (legacy_asserting v \<and>
      (case get_hstate 0 v of
         Some h \<Rightarrow> handler_installed (handler h) \<and> \<not> masked h
       | None \<Rightarrow> False))"

definition legacy_ctx :: "pcie_device_state_t \<Rightarrow> nat" where
  "legacy_ctx v = (case get_hstate 0 v of Some h \<Rightarrow> ctx h | None \<Rightarrow> 0)"

definition legacy_answer :: "nat \<Rightarrow> pcie_device_state_t \<Rightarrow> pcie_irq_handler_retval_t" where
  "legacy_answer d v =
     (case get_hstate 0 v of
        Some h \<Rightarrow> (case handler h of Some f \<Rightarrow> f d 0 (ctx h) | None \<Rightarrow> PCIE_IRQRET_NO_ACTION)
      | None \<Rightarrow> PCIE_IRQRET_NO_ACTION)"

definition legacy_force_mask :: "nat \<Rightarrow> pcie_device_state_t \<Rightarrow> bool" where
  "legacy_force_mask d v =
     (legacy_asserting v \<and> (if legacy_invoked v then ret_mask (legacy_answer d v) else True))"

definition legacy_events :: "nat \<Rightarrow> pcie_device_state_t \<Rightarrow> event list" where
  "legacy_events d v =
     (if legacy_invoked v then [Call_handler d 0 (legacy_ctx v)] else []) @
     (if legacy_force_mask d v
      then [Cfg_write_command d (cfg_command v OR PCIE_CFG_COMMAND_INT_DISABLE)] else [])"

text \<open>A device record without its handler table: what the slot updates leave alone.\<close>

definition strip_slots :: "pcie_device_state_t \<Rightarrow> pcie_device_state_t" where
  "strip_slots v = v\<lparr>irq_handlers := HANDLERS_NULL, irq_singleton_handler := zero_handler_state\<rparr>"

text \<open>
  The writes of \<^verbatim>\<open>pcie_mask_all_msi_vectors\<close> over \<^verbatim>\<open>n\<close> slots, starting from the
  per-vector mask register \<^verbatim>\<open>mb\<close>: for each vector in turn its mask bit is added to
  the register (when the device has one) and the platform is asked to mask it (when it
  can); then the whole mask register is set (when the device has one).
\<close>

definition mask_all_events :: "bool \<Rightarrow> bool \<Rightarrow> nat \<Rightarrow> 32 word \<Rightarrow> nat \<Rightarrow> event list" where
  "mask_all_events plat pvm d mb n =
     concat (map (\<lambda>i. (if pvm then [Msi_write_pvm_mask d (mb OR mask (Suc i))] else [])
                       @ (if plat then [Plat_MaskUnmaskMsi d i True] else []))
               [0..<n])
     @ (if pvm then [Msi_write_pvm_mask d 0xFFFFFFFF] else [])"

text \<open>The vectors for which a trace registers a handler with the platform, in order.\<close>

fun registered_vectors :: "event list \<Rightarrow> nat list" where
  "registered_vectors [] = []"
| "registered_vectors (Plat_RegisterMsiHandler d i (Some c) # es) = i # registered_vectors es"
| "registered_vectors (e # es) = registered_vectors es"

text \<open>
  The calls by which \<^verbatim>\<open>pcie_free_msi_block\<close> gives a block back: nothing when no block
  is allocated; otherwise, for every vector of the block in turn, the platform is asked to
  mask it (when it can) and its handler is unregistered, and then the block is freed.
\<close>

definition free_block_events :: "bool \<Rightarrow> nat \<Rightarrow> pcie_msi_block_t \<Rightarrow> event list" where
  "free_block_events plat d b =
     (if allocated b
      then concat (map (\<lambda>i. (if plat then [Plat_MaskUnmaskMsi d i True] else [])
                             @ [Plat_RegisterMsiHandler d i None])
                     [0..<num_irq b])
           @ [Plat_FreeMsiBlock d]
      else [])"

section \<open>Concrete devices, platforms and scenarios\<close>

text \<open>
  A device with a legacy pin routed to system vector 17 and a 64-bit MSI capability with
  per-vector masking and up to 8 vectors; a platform that supports MSI and MSI masking
  and grants every request.
\<close>

definition dev0 :: pcie_device_state_t where
  "dev0 = \<lparr>plugged_in = True, disabled = False, cfg_command = 0, cfg_status = 0,
           irq_mode = PCIE_IRQ_MODE_DISABLED, irq_handlers = HANDLERS_NULL,
           irq_handler_count = 0, irq_registered_handler_count = 0,
           irq_singleton_handler = zero_handler_state,
           legacy_pin = 1, legacy_shared_handler = Some 17, msi_cfg = True,
           cap_msi = \<lparr>ctrl = 0, addr = 0, addr_upper = 0, data_32bit = 0, data_64bit = 0,
                      mask_bits = 0\<rparr>,
           msi_is64bit = True, msi_max_irqs = 8, msi_pvm_mask_reg = True,
           msi_irq_block = \<lparr>allocated = False, num_irq = 0, tgt_addr = 0, tgt_data = 0\<rparr>\<rparr>"

definition machine0 :: machine where
  "machine0 = \<lparr>devices = (\<lambda>_. dev0), device_handler_list = (\<lambda>_. []),
               int_masked = (\<lambda>_. True), trace = []\<rparr>"

definition platform0 :: platform where
  "platform0 =
     \<lparr>supports_msi = True, supports_msi_masking = True,
      AllocMsiBlock = (\<lambda>n can64 msix b.
        (NO_ERROR, \<lparr>allocated = True, num_irq = n, tgt_addr = 0xFEE00000, tgt_data = 0x40\<rparr>)),
      FreeMsiBlock = (\<lambda>b. b\<lparr>allocated := False\<rparr>),
      calloc_succeeds = (\<lambda>_. True)\<rparr>"

text \<open>A 32-bit MSI device without per-vector masking, on a platform that cannot mask MSI.\<close>

definition dev_nopvm :: pcie_device_state_t where
  "dev_nopvm = dev0\<lparr>msi_pvm_mask_reg := False, msi_is64bit := False\<rparr>"

definition machine_nopvm :: machine where
  "machine_nopvm = machine0\<lparr>devices := (\<lambda>_. dev_nopvm)\<rparr>"

definition platform_nomask :: platform where
  "platform_nomask = platform0\<lparr>supports_msi_masking := False\<rparr>"

text \<open>Driver callbacks.\<close>

definition quiet_handler :: pcie_irq_handler_fn_t where
  "quiet_handler d i c = PCIE_IRQRET_NO_ACTION"

definition resched_handler :: pcie_irq_handler_fn_t where
  "resched_handler d i c = PCIE_IRQRET_RESCHED"

definition masking_handler :: pcie_irq_handler_fn_t where
  "masking_handler d i c = PCIE_IRQRET_MASK"

text \<open>Device 0 after \<^verbatim>\<open>pcie_set_irq_mode(dev, LEGACY, 1)\<close>.\<close>

definition legacy_machine :: machine where
  "legacy_machine = snd (pcie_set_irq_mode platform0 0 PCIE_IRQ_MODE_LEGACY 1 machine0)"

text \<open>The same device with a handler registered and the legacy IRQ masked by the driver.\<close>

definition legacy_masked_machine :: machine where
  "legacy_masked_machine =
     snd (pcie_mask_unmask_irq platform0 0 0 True
       (snd (pcie_register_irq_handler 0 0 (Some quiet_handler) 5 legacy_machine)))"

text \<open>That device after it has been unplugged.\<close>

definition legacy_unplugged :: machine where
  "legacy_unplugged = upd_dev 0 (\<lambda>v. v\<lparr>plugged_in := False\<rparr>) legacy_masked_machine"

text \<open>Device 0 after \<^verbatim>\<open>pcie_set_irq_mode(dev, MSI, 4)\<close>: every vector is masked.\<close>

definition msi_machine :: machine where
  "msi_machine = snd (pcie_set_irq_mode platform0 0 PCIE_IRQ_MODE_MSI 4 machine0)"

text \<open>The same device with a handler registered on vector 0 and the vector unmasked.\<close>

definition msi_unmasked_machine :: machine where
  "msi_unmasked_machine =
     snd (pcie_mask_unmask_irq platform0 0 0 False
       (snd (pcie_register_irq_handler 0 0 (Some quiet_handler) 5 msi_machine)))"

text \<open>
  The device without per-vector masking in MSI mode with two vectors, on the platform
  without MSI masking, after it has been unplugged.
\<close>

definition msi_nomask_unplugged :: machine where
  "msi_nomask_unplugged =
     upd_dev 0 (\<lambda>v. v\<lparr>plugged_in := False\<rparr>)
       (snd (pcie_set_irq_mode platform_nomask 0 PCIE_IRQ_MODE_MSI 2 machine_nopvm))"

text \<open>A platform on which \<^verbatim>\<open>calloc\<close> never returns memory.\<close>

definition platform_nomem :: platform where
  "platform_nomem = platform0\<lparr>calloc_succeeds := (\<lambda>_. False)\<rparr>"

text \<open>
  Devices 0 and 1 share vector 17 in LEGACY mode, in this order of attachment. Device 0
  has a handler that asks for a reschedule, device 1 a handler that asks to stay masked;
  both are unmasked and both assert INT_STATUS.
\<close>

definition two_legacy_devices :: machine where
  "two_legacy_devices =
     (let s1 = snd (pcie_set_irq_mode platform0 0 PCIE_IRQ_MODE_LEGACY 1 machine0);
          s2 = snd (pcie_set_irq_mode platform0 1 PCIE_IRQ_MODE_LEGACY 1 s1);
          s3 = snd (pcie_register_irq_handler 0 0 (Some resched_handler) 7 s2);
          s4 = snd (pcie_register_irq_handler 1 0 (Some masking_handler) 9 s3);
          s5 = snd (pcie_mask_unmask_irq platform0 0 0 False s4);
          s6 = snd (pcie_mask_unmask_irq platform0 1 0 False s5);
          s7 = upd_dev 0 (\<lambda>v. v\<lparr>cfg_status := 0x0008\<rparr>) s6
      in upd_dev 1 (\<lambda>v. v\<lparr>cfg_status := 0x0008\<rparr>) s7)"

text \<open>
  The MSI device with a handler registered on vector 2 and the vector unmasked; and the
  same with a handler that asks to stay masked and to reschedule.
\<close>

definition msi_vector2_machine :: machine where
  "msi_vector2_machine =
     snd (pcie_mask_unmask_irq platform0 0 2 False
       (snd (pcie_register_irq_handler 0 2 (Some quiet_handler) 5 msi_machine)))"

text \<open>A platform that refuses every request for an MSI block.\<close>

definition platform_noblock :: platform where
  "platform_noblock = platform0\<lparr>AllocMsiBlock := (\<lambda>n can64 msix b. (ERR_NO_RESOURCES, b))\<rparr>"

text \<open>
  A platform that grants MSI blocks in powers of two: a request for \<^verbatim>\<open>n\<close> vectors is
  answered with a block of \<^verbatim>\<open>2 ^ log2_uint_ceil n\<close> vectors.
\<close>

definition platform_pow2 :: platform where
  "platform_pow2 =
     platform0\<lparr>AllocMsiBlock := (\<lambda>n can64 msix b.
        (NO_ERROR, \<lparr>allocated = True, num_irq = 2 ^ log2_uint_ceil n,
                    tgt_addr = 0xFEE00000, tgt_data = 0x40\<rparr>))\<rparr>"

text \<open>
  A platform that grants blocks, cannot mask MSI vectors, and on which \<^verbatim>\<open>calloc\<close> never
  returns memory.
\<close>

definition platform_nomem_nomask :: platform where
  "platform_nomem_nomask = platform_nomem\<lparr>supports_msi_masking := False\<rparr>"

section \<open>Basic facts about slots\<close>

lemmas prim_defs = emit_def upd_dev_def write_command_def write_msi_ctrl_def write_msi_addr_def
  write_msi_addr_upper_def write_msi_data_32bit_def write_msi_data_64bit_def write_pvm_mask_def
  mask_interrupt_def unmask_interrupt_def register_int_handler_def

lemma get_upd_hstate_same: "get_hstate i (upd_hstate i f v) = map_option f (get_hstate i v)"
  by (cases "irq_handlers v") (simp_all add: get_hstate_def upd_hstate_def)

lemma get_upd_hstate_other: "i \<noteq> j \<Longrightarrow> get_hstate i (upd_hstate j f v) = get_hstate i v"
  by (cases "irq_handlers v") (simp_all add: get_hstate_def upd_hstate_def)

lemma upd_hstate_fields:
  "plugged_in (upd_hstate i f v) = plugged_in v"
  "disabled (upd_hstate i f v) = disabled v"
  "cfg_command (upd_hstate i f v) = cfg_command v"
  "cfg_status (upd_hstate i f v) = cfg_status v"
  "irq_mode (upd_hstate i f v) = irq_mode v"
  "irq_handler_count (upd_hstate i f v) = irq_handler_count v"
  "irq_registered_handler_count (upd_hstate i f v) = irq_registered_handler_count v"
  "legacy_pin (upd_hstate i f v) = legacy_pin v"
  "legacy_shared_handler (upd_hstate i f v) = legacy_shared_handler v"
  "msi_cfg (upd_hstate i f v) = msi_cfg v"
  "cap_msi (upd_hstate i f v) = cap_msi v"
  "msi_is64bit (upd_hstate i f v) = msi_is64bit v"
  "msi_max_irqs (upd_hstate i f v) = msi_max_irqs v"
  "msi_pvm_mask_reg (upd_hstate i f v) = msi_pvm_mask_reg v"
  "msi_irq_block (upd_hstate i f v) = msi_irq_block v"
  by (simp_all add: upd_hstate_def split: handlers_ptr.splits)

lemma upd_hstate_null:
  "handlers_is_null (irq_handlers (upd_hstate i f v)) = handlers_is_null (irq_handlers v)"
  by (cases "irq_handlers v") (simp_all add: upd_hstate_def)

lemma get_hstate_not_null: "get_hstate i v = Some h \<Longrightarrow> \<not> handlers_is_null (irq_handlers v)"
  by (cases "irq_handlers v") (simp_all add: get_hstate_def)

lemma get_hstate_plugged: "get_hstate i (v\<lparr>plugged_in := b\<rparr>) = get_hstate i v"
  by (cases "irq_handlers v") (simp_all add: get_hstate_def)

lemma emit_fields:
  "devices (emit e s) = devices s"
  "trace (emit e s) = trace s @ [e]"
  "device_handler_list (emit e s) = device_handler_list s"
  "int_masked (emit e s) = int_masked s"
  by (simp_all add: emit_def)

lemma upd_dev_fields:
  "devices (upd_dev d f s) d = f (devices s d)"
  "e \<noteq> d \<Longrightarrow> devices (upd_dev d f s) e = devices s e"
  "trace (upd_dev d f s) = trace s"
  "device_handler_list (upd_dev d f s) = device_handler_list s"
  "int_masked (upd_dev d f s) = int_masked s"
  by (simp_all add: upd_dev_def)

section \<open>The control plane\<close>

subsection \<open>Switching between active modes\<close>

text \<open>
  C2 (as amended). For every device whose mode is not DISABLED and every active target
  mode, \<^verbatim>\<open>pcie_set_irq_mode\<close> leaves the state unchanged and fails: with BAD_STATE when
  \<^verbatim>\<open>requested_irqs\<close> is at least 1 (and whenever the device is unplugged or disabled);
  with INVALID_ARGS when \<^verbatim>\<open>requested_irqs\<close> is 0 on a plugged-in, enabled device,
  because the argument check comes before the state check.
\<close>

theorem set_mode_active_needs_disabled:
  assumes "irq_mode (devices s d) \<noteq> PCIE_IRQ_MODE_DISABLED"
      and "m \<noteq> PCIE_IRQ_MODE_DISABLED"
  shows "pcie_set_irq_mode p d m n s =
           (if plugged_in (devices s d) \<and> \<not> disabled (devices s d) \<and> n = 0
            then ERR_INVALID_ARGS else ERR_BAD_STATE, s)"
  using assms by (simp add: pcie_set_irq_mode_def pcie_set_irq_mode_internal_def)

lemma legacy_machine_mode: "irq_mode (devices legacy_machine 0) = PCIE_IRQ_MODE_LEGACY"
  by code_simp

lemma legacy_machine_plugged:
  "plugged_in (devices legacy_machine 0) \<and> \<not> disabled (devices legacy_machine 0)"
  by code_simp

theorem set_mode_active_needs_disabled_witness:
  "pcie_set_irq_mode platform0 0 PCIE_IRQ_MODE_MSI 2 legacy_machine = (ERR_BAD_STATE, legacy_machine)"
  using set_mode_active_needs_disabled [of legacy_machine 0 PCIE_IRQ_MODE_MSI platform0 2]
  by (simp add: legacy_machine_mode)

text \<open>
  A device in LEGACY mode asked for MSI with zero IRQs: the answer is INVALID_ARGS, not
  BAD_STATE.
\<close>

theorem set_mode_zero_irqs_counterexample:
  "irq_mode (devices legacy_machine 0) = PCIE_IRQ_MODE_LEGACY \<and>
   fst (pcie_set_irq_mode platform0 0 PCIE_IRQ_MODE_MSI 0 legacy_machine) = ERR_INVALID_ARGS"
  by code_simp

subsection \<open>The singleton slot\<close>

text \<open>
  C10. A request for exactly one IRQ is served from the embedded singleton slot, whatever
  the allocator would answer: \<^verbatim>\<open>pcie_alloc_irq_handlers\<close> returns NO_ERROR, the table is
  the singleton, it has one slot and the allocator is not called (the trace is unchanged);
  \<^verbatim>\<open>pcie_set_irq_mode(dev, LEGACY, n)\<close> never returns NO_MEMORY.
\<close>

theorem singleton_alloc_cannot_fail:
  "fst (pcie_alloc_irq_handlers p d 1 s) = NO_ERROR
   \<and> irq_handlers (devices (snd (pcie_alloc_irq_handlers p d 1 s)) d) = HANDLERS_SINGLETON
   \<and> irq_handler_count (devices (snd (pcie_alloc_irq_handlers p d 1 s)) d) = 1
   \<and> trace (snd (pcie_alloc_irq_handlers p d 1 s)) = trace s
   \<and> fst (pcie_set_irq_mode p d PCIE_IRQ_MODE_LEGACY n s) \<noteq> ERR_NO_MEMORY"
  by (simp add: pcie_alloc_irq_handlers_def finish_bookkeeping_def upd_dev_def upd_hstate_def
      pcie_set_irq_mode_def pcie_set_irq_mode_internal_def pcie_enter_legacy_irq_mode_def Let_def)

theorem singleton_alloc_cannot_fail_witness:
  "\<not> calloc_succeeds platform_nomem 1
   \<and> fst (pcie_alloc_irq_handlers platform_nomem 0 1 machine0) = NO_ERROR
   \<and> fst (pcie_set_irq_mode platform_nomem 0 PCIE_IRQ_MODE_LEGACY 1 machine0) = NO_ERROR"
proof -
  have a: "\<not> calloc_succeeds platform_nomem 1" by code_simp
  have b: "fst (pcie_set_irq_mode platform_nomem 0 PCIE_IRQ_MODE_LEGACY 1 machine0) = NO_ERROR"
    by code_simp
  from singleton_alloc_cannot_fail [of platform_nomem 0 machine0 1] a b show ?thesis by simp
qed

subsection \<open>Masking and unmasking\<close>

lemma legacy_mask_sets_flag:
  "get_hstate 0 (devices s d) = Some h \<Longrightarrow> irq_handler_count (devices s d) = 1 \<Longrightarrow>
   pcie_mask_unmask_legacy_irq d m s = (NO_ERROR, t) \<Longrightarrow>
   get_hstate 0 (devices t d) = Some (h\<lparr>masked := m\<rparr>)"
  by (auto simp: pcie_mask_unmask_legacy_irq_def Let_def prim_defs get_hstate_def upd_hstate_def
      split: if_splits handlers_ptr.splits)

lemma locked_sets_flag:
  "get_hstate i (devices s d) = Some h \<Longrightarrow>
   get_hstate i (devices (snd (pcie_mask_unmask_msi_irq_locked p d i m s)) d) =
     Some (h\<lparr>masked := m\<rparr>)"
  by (auto simp: pcie_mask_unmask_msi_irq_locked_def Let_def prim_defs get_hstate_def
      upd_hstate_def split: if_splits handlers_ptr.splits)

lemma locked_returns_previous:
  "get_hstate i (devices s d) = Some h \<Longrightarrow>
   fst (pcie_mask_unmask_msi_irq_locked p d i m s) = masked h"
  by (auto simp: pcie_mask_unmask_msi_irq_locked_def Let_def prim_defs get_hstate_def
      upd_hstate_def split: if_splits handlers_ptr.splits)

lemma mask_unmask_sets_flag:
  assumes "get_hstate i (devices s d) = Some h"
      and "irq_mode (devices s d) = PCIE_IRQ_MODE_LEGACY \<longrightarrow> irq_handler_count (devices s d) = 1"
      and "fst (pcie_mask_unmask_irq p d i m s) = NO_ERROR"
  shows "get_hstate i (devices (snd (pcie_mask_unmask_irq p d i m s)) d) = Some (h\<lparr>masked := m\<rparr>)"
proof (cases "irq_mode (devices s d)")
  case PCIE_IRQ_MODE_LEGACY
  with assms have c: "irq_handler_count (devices s d) = 1" by simp
  have i0: "i = 0" using assms(3) c PCIE_IRQ_MODE_LEGACY
    by (auto simp: pcie_mask_unmask_irq_def pcie_mask_unmask_irq_internal_body_def split: if_splits)
  have eq: "pcie_mask_unmask_irq p d i m s = pcie_mask_unmask_legacy_irq d m s"
    using assms(3) PCIE_IRQ_MODE_LEGACY
    by (auto simp: pcie_mask_unmask_irq_def pcie_mask_unmask_irq_internal_body_def split: if_splits)
  show ?thesis
    using legacy_mask_sets_flag [of s d h m "snd (pcie_mask_unmask_legacy_irq d m s)"]
      assms(1,3) c i0 eq by (simp add: prod_eq_iff)
next
  case PCIE_IRQ_MODE_MSI
  have eq: "snd (pcie_mask_unmask_irq p d i m s) = snd (pcie_mask_unmask_msi_irq_locked p d i m s)"
    using assms(3) PCIE_IRQ_MODE_MSI
    by (auto simp: pcie_mask_unmask_irq_def pcie_mask_unmask_irq_internal_body_def
        pcie_mask_unmask_msi_irq_def split: if_splits)
  show ?thesis using locked_sets_flag [OF assms(1)] eq by simp
qed (use assms(3) in \<open>auto simp: pcie_mask_unmask_irq_def pcie_mask_unmask_irq_internal_body_def
      split: if_splits\<close>)

lemma mask_unmask_keeps_mode:
  "irq_mode (devices (snd (pcie_mask_unmask_irq p d i m s)) d) = irq_mode (devices s d) \<and>
   irq_handler_count (devices (snd (pcie_mask_unmask_irq p d i m s)) d) =
     irq_handler_count (devices s d)"
  by (simp add: pcie_mask_unmask_irq_def pcie_mask_unmask_irq_internal_body_def
      pcie_mask_unmask_legacy_irq_def pcie_mask_unmask_msi_irq_def
      pcie_mask_unmask_msi_irq_locked_def Let_def prim_defs upd_hstate_fields
      split: pcie_irq_mode_t.splits)





text \<open>
  The build without assertions. For a device with mode other than DISABLED and an existing
  slot \<^verbatim>\<open>irq_id\<close> below \<^verbatim>\<open>handler_count\<close>: unmasking fails with BAD_STATE and
  changes nothing when the slot has no handler, and when the device is plugged out. A
  request to mask is not refused for the plug state: it answers NO_ERROR in LEGACY mode,
  NO_ERROR in MSI mode when the platform or the device can mask, and NOT_SUPPORTED in MSI
  mode when neither can (and in MSI-X mode).
\<close>

lemma mask_unmask_plug_state_release:
  assumes "irq_mode (devices s d) \<noteq> PCIE_IRQ_MODE_DISABLED"
      and "i < irq_handler_count (devices s d)"
      and "get_hstate i (devices s d) = Some h"
  shows "(if \<not> handler_installed (handler h) \<or> \<not> plugged_in (devices s d)
          then pcie_mask_unmask_irq p d i False s = (ERR_BAD_STATE, s) else True)
         \<and> fst (pcie_mask_unmask_irq p d i True s) =
             (case irq_mode (devices s d) of
                PCIE_IRQ_MODE_LEGACY \<Rightarrow> NO_ERROR
              | PCIE_IRQ_MODE_MSI \<Rightarrow>
                  (if supports_msi_masking p \<or> msi_pvm_mask_reg (devices s d)
                   then NO_ERROR else ERR_NOT_SUPPORTED)
              | PCIE_IRQ_MODE_MSI_X \<Rightarrow> ERR_NOT_SUPPORTED
              | _ \<Rightarrow> ERR_INTERNAL)"
  using assms get_hstate_not_null [OF assms(3)]
  by (auto simp: pcie_mask_unmask_irq_def pcie_mask_unmask_irq_internal_body_def
      pcie_mask_unmask_legacy_irq_def pcie_mask_unmask_msi_irq_def Let_def
      split: pcie_irq_mode_t.splits)

text \<open>The two builds agree wherever the assertion holds, and on every request to unmask.\<close>

lemma checked_without_asserts:
  "pcie_mask_unmask_irq_checked False p d i m s = Some (pcie_mask_unmask_irq p d i m s)"
  by (simp add: pcie_mask_unmask_irq_checked_def pcie_mask_unmask_irq_internal_def
      pcie_mask_unmask_irq_def)

lemma checked_plugged_in:
  "plugged_in (devices s d) \<or> \<not> m \<Longrightarrow>
   pcie_mask_unmask_irq_checked a p d i m s = Some (pcie_mask_unmask_irq p d i m s)"
  by (auto simp: pcie_mask_unmask_irq_checked_def pcie_mask_unmask_irq_internal_def
      pcie_mask_unmask_irq_def)

text \<open>
  C8. For a device with mode other than DISABLED and an existing slot \<^verbatim>\<open>irq_id\<close> below
  \<^verbatim>\<open>handler_count\<close>, in either build: unmasking fails with BAD_STATE and changes nothing
  when the slot has no handler, and when the device is plugged out. Masking a plugged-out
  device is where the code contradicts itself: \<^verbatim>\<open>pcie_mask_unmask_irq\<close> admits the
  request whatever the plug state, and \<^verbatim>\<open>pcie_mask_unmask_irq_internal\<close>, which it then
  calls, asserts that the device is plugged in. With the assertions compiled in the call
  panics; with them compiled out it returns, with NO_ERROR in LEGACY mode and in MSI mode
  when the platform or the device can mask, and NOT_SUPPORTED in MSI mode when neither can.
\<close>

theorem mask_unmask_plug_state_builds:
  assumes "irq_mode (devices s d) \<noteq> PCIE_IRQ_MODE_DISABLED"
      and "i < irq_handler_count (devices s d)"
      and "get_hstate i (devices s d) = Some h"
  shows "(if \<not> handler_installed (handler h) \<or> \<not> plugged_in (devices s d)
          then pcie_mask_unmask_irq_checked asserts p d i False s = Some (ERR_BAD_STATE, s)
          else True)
         \<and> (if plugged_in (devices s d) then True
            else pcie_mask_unmask_irq_checked True p d i True s = None
                 \<and> map_option fst (pcie_mask_unmask_irq_checked False p d i True s) =
                     Some (case irq_mode (devices s d) of
                             PCIE_IRQ_MODE_LEGACY \<Rightarrow> NO_ERROR
                           | PCIE_IRQ_MODE_MSI \<Rightarrow>
                               (if supports_msi_masking p \<or> msi_pvm_mask_reg (devices s d)
                                then NO_ERROR else ERR_NOT_SUPPORTED)
                           | PCIE_IRQ_MODE_MSI_X \<Rightarrow> ERR_NOT_SUPPORTED
                           | _ \<Rightarrow> ERR_INTERNAL))"
proof -
  have unmask: "\<not> handler_installed (handler h) \<or> \<not> plugged_in (devices s d) \<Longrightarrow>
      pcie_mask_unmask_irq_checked asserts p d i False s = Some (ERR_BAD_STATE, s)"
    using mask_unmask_plug_state_release [OF assms, of p]
      checked_plugged_in [of s d False asserts p i]
    by (simp split: if_splits)
  have panic: "\<not> plugged_in (devices s d) \<Longrightarrow>
      pcie_mask_unmask_irq_checked True p d i True s = None"
    by (simp add: pcie_mask_unmask_irq_checked_def pcie_mask_unmask_irq_internal_def)
  have quiet: "map_option fst (pcie_mask_unmask_irq_checked False p d i True s) =
      Some (case irq_mode (devices s d) of
              PCIE_IRQ_MODE_LEGACY \<Rightarrow> NO_ERROR
            | PCIE_IRQ_MODE_MSI \<Rightarrow>
                (if supports_msi_masking p \<or> msi_pvm_mask_reg (devices s d)
                 then NO_ERROR else ERR_NOT_SUPPORTED)
            | PCIE_IRQ_MODE_MSI_X \<Rightarrow> ERR_NOT_SUPPORTED
            | _ \<Rightarrow> ERR_INTERNAL)"
    using mask_unmask_plug_state_release [OF assms, of p]
    by (simp add: checked_without_asserts)
  show ?thesis using unmask panic quiet by simp
qed

lemma legacy_masked_machine_facts:
  "irq_mode (devices legacy_masked_machine 0) = PCIE_IRQ_MODE_LEGACY
   \<and> irq_handler_count (devices legacy_masked_machine 0) = 1
   \<and> map_option masked (get_hstate 0 (devices legacy_masked_machine 0)) = Some True
   \<and> map_option (\<lambda>h. handler_installed (handler h)) (get_hstate 0 (devices legacy_masked_machine 0))
       = Some True"
  by code_simp

text \<open>
  The failing input: device 0 in LEGACY mode with its handler registered, unplugged, and
  asked to mask its IRQ. The build with assertions panics; the build without them answers
  NO_ERROR; a request to unmask is answered BAD_STATE in both.
\<close>

theorem mask_unmask_plug_state_builds_witness:
  "irq_mode (devices legacy_unplugged 0) = PCIE_IRQ_MODE_LEGACY
   \<and> \<not> plugged_in (devices legacy_unplugged 0)
   \<and> pcie_mask_unmask_irq_checked True platform0 0 0 True legacy_unplugged = None
   \<and> map_option fst (pcie_mask_unmask_irq_checked False platform0 0 0 True legacy_unplugged) =
       Some NO_ERROR
   \<and> pcie_mask_unmask_irq_checked True platform0 0 0 False legacy_unplugged =
       Some (ERR_BAD_STATE, legacy_unplugged)"
proof -
  have dv: "devices legacy_unplugged 0 = (devices legacy_masked_machine 0)\<lparr>plugged_in := False\<rparr>"
    by (simp add: legacy_unplugged_def upd_dev_def)
  obtain h where h0: "get_hstate 0 (devices legacy_masked_machine 0) = Some h"
    using legacy_masked_machine_facts by auto
  have h: "get_hstate 0 (devices legacy_unplugged 0) = Some h"
    using h0 by (simp add: dv get_hstate_plugged)
  have md: "irq_mode (devices legacy_unplugged 0) = PCIE_IRQ_MODE_LEGACY"
    using legacy_masked_machine_facts by (simp add: dv)
  have ne: "irq_mode (devices legacy_unplugged 0) \<noteq> PCIE_IRQ_MODE_DISABLED"
    using md by simp
  have ct: "0 < irq_handler_count (devices legacy_unplugged 0)"
    using legacy_masked_machine_facts by (simp add: dv)
  have pl: "\<not> plugged_in (devices legacy_unplugged 0)" by (simp add: dv)
  from mask_unmask_plug_state_builds [OF ne ct h, of True platform0] md pl show ?thesis
    by simp
qed

text \<open>
  In the build without assertions, an unplugged device in MSI mode that has no per-vector
  masking, on a platform that cannot mask MSI vectors, is answered NOT_SUPPORTED when it
  asks to mask.
\<close>

lemma mask_unplugged_msi_nomask:
  "irq_mode (devices msi_nomask_unplugged 0) = PCIE_IRQ_MODE_MSI
   \<and> \<not> plugged_in (devices msi_nomask_unplugged 0)
   \<and> irq_handler_count (devices msi_nomask_unplugged 0) = 2
   \<and> fst (pcie_mask_unmask_irq platform_nomask 0 0 True msi_nomask_unplugged) = ERR_NOT_SUPPORTED
   \<and> pcie_mask_unmask_irq_checked True platform_nomask 0 0 True msi_nomask_unplugged = None"
  by code_simp

text \<open>
  C9 (as amended). When \<^verbatim>\<open>pcie_mask_unmask_irq(dev, irq_id, true)\<close> and then
  \<^verbatim>\<open>pcie_mask_unmask_irq(dev, irq_id, false)\<close> both succeed on an existing slot (in LEGACY
  mode the table has its single slot), the slot's \<^verbatim>\<open>masked\<close> flag is false afterwards,
  whatever it was before: the prior value is restored exactly when it was false.
\<close>

theorem mask_then_unmask_clears:
  assumes "get_hstate i (devices s d) = Some h"
      and "irq_mode (devices s d) = PCIE_IRQ_MODE_LEGACY \<longrightarrow> irq_handler_count (devices s d) = 1"
      and "fst (pcie_mask_unmask_irq p d i True s) = NO_ERROR"
      and "fst (pcie_mask_unmask_irq p d i False (snd (pcie_mask_unmask_irq p d i True s))) = NO_ERROR"
  shows "map_option masked
           (get_hstate i (devices (snd (pcie_mask_unmask_irq p d i False
              (snd (pcie_mask_unmask_irq p d i True s)))) d)) = Some False"
proof -
  let ?s1 = "snd (pcie_mask_unmask_irq p d i True s)"
  have a: "get_hstate i (devices ?s1 d) = Some (h\<lparr>masked := True\<rparr>)"
    by (rule mask_unmask_sets_flag [OF assms(1,2,3)])
  have b: "irq_mode (devices ?s1 d) = PCIE_IRQ_MODE_LEGACY \<longrightarrow> irq_handler_count (devices ?s1 d) = 1"
    using assms(2) mask_unmask_keeps_mode [of p d i True s] by simp
  show ?thesis
    using mask_unmask_sets_flag [OF a b assms(4)] by simp
qed

lemma msi_unmasked_machine_facts:
  "irq_mode (devices msi_unmasked_machine 0) = PCIE_IRQ_MODE_MSI
   \<and> map_option masked (get_hstate 0 (devices msi_unmasked_machine 0)) = Some False
   \<and> fst (pcie_mask_unmask_irq platform0 0 0 True msi_unmasked_machine) = NO_ERROR
   \<and> fst (pcie_mask_unmask_irq platform0 0 0 False
        (snd (pcie_mask_unmask_irq platform0 0 0 True msi_unmasked_machine))) = NO_ERROR"
  by code_simp

theorem mask_then_unmask_clears_witness:
  "map_option masked (get_hstate 0 (devices msi_unmasked_machine 0)) = Some False
   \<and> map_option masked
       (get_hstate 0 (devices (snd (pcie_mask_unmask_irq platform0 0 0 False
          (snd (pcie_mask_unmask_irq platform0 0 0 True msi_unmasked_machine)))) 0)) = Some False"
proof -
  obtain h where h: "get_hstate 0 (devices msi_unmasked_machine 0) = Some h"
    using msi_unmasked_machine_facts by auto
  from mask_then_unmask_clears [of 0 msi_unmasked_machine 0 h platform0] h
    msi_unmasked_machine_facts
  show ?thesis by simp
qed

text \<open>
  A legacy device whose slot is masked: after mask and unmask, both successful, the flag
  is false, not the prior true.
\<close>

theorem mask_then_unmask_counterexample:
  "map_option masked (get_hstate 0 (devices legacy_masked_machine 0)) = Some True
   \<and> fst (pcie_mask_unmask_irq platform0 0 0 True legacy_masked_machine) = NO_ERROR
   \<and> fst (pcie_mask_unmask_irq platform0 0 0 False
        (snd (pcie_mask_unmask_irq platform0 0 0 True legacy_masked_machine))) = NO_ERROR
   \<and> map_option masked
       (get_hstate 0 (devices (snd (pcie_mask_unmask_irq platform0 0 0 False
          (snd (pcie_mask_unmask_irq platform0 0 0 True legacy_masked_machine)))) 0)) = Some False"
  by code_simp

section \<open>The shared legacy dispatcher\<close>









subsection \<open>One dispatch pass\<close>

lemma legacy_step_resched:
  "fst (legacy_service_device d (nr, s)) =
     (nr \<or> (legacy_invoked (devices s d) \<and> ret_resched (legacy_answer d (devices s d))))"
  by (auto simp: legacy_service_device_def legacy_invoked_def legacy_asserting_def
      legacy_answer_def Let_def split: option.splits)

lemma legacy_step_trace:
  "trace (snd (legacy_service_device d (nr, s))) = trace s @ legacy_events d (devices s d)"
  by (auto simp: legacy_service_device_def legacy_invoked_def legacy_asserting_def
      legacy_answer_def legacy_events_def legacy_force_mask_def legacy_ctx_def Let_def prim_defs
      split: option.splits)

lemma legacy_step_other:
  "e \<noteq> d \<Longrightarrow> devices (snd (legacy_service_device d (nr, s))) e = devices s e"
  by (auto simp: legacy_service_device_def Let_def prim_defs split: option.splits)

lemma legacy_step_command:
  "cfg_command (devices (snd (legacy_service_device d (nr, s))) d) =
     (if legacy_force_mask d (devices s d)
      then cfg_command (devices s d) OR PCIE_CFG_COMMAND_INT_DISABLE
      else cfg_command (devices s d))"
  by (auto simp: legacy_service_device_def legacy_invoked_def legacy_asserting_def
      legacy_answer_def legacy_force_mask_def Let_def prim_defs upd_hstate_fields
      split: option.splits)

lemma legacy_pass:
  "distinct xs \<Longrightarrow>
   fst (fold legacy_service_device xs (nr, s)) =
     (nr \<or> (\<exists>d\<in>set xs. legacy_invoked (devices s d) \<and> ret_resched (legacy_answer d (devices s d))))
   \<and> trace (snd (fold legacy_service_device xs (nr, s))) =
       trace s @ concat (map (\<lambda>d. legacy_events d (devices s d)) xs)
   \<and> (\<forall>e. e \<notin> set xs \<longrightarrow> devices (snd (fold legacy_service_device xs (nr, s))) e = devices s e)
   \<and> (\<forall>d\<in>set xs. cfg_command (devices (snd (fold legacy_service_device xs (nr, s))) d) =
        (if legacy_force_mask d (devices s d)
         then cfg_command (devices s d) OR PCIE_CFG_COMMAND_INT_DISABLE
         else cfg_command (devices s d)))"
proof (induction xs arbitrary: nr s)
  case Nil
  then show ?case by simp
next
  case (Cons x xs)
  define nr1 where "nr1 = fst (legacy_service_device x (nr, s))"
  define s1 where "s1 = snd (legacy_service_device x (nr, s))"
  have step: "legacy_service_device x (nr, s) = (nr1, s1)"
    by (simp add: nr1_def s1_def)
  have dx: "distinct xs" and xn: "x \<notin> set xs" using Cons.prems by simp_all
  have same: "devices s1 e = devices s e" if "e \<in> set xs" for e
  proof -
    from that xn have "e \<noteq> x" by auto
    then show ?thesis by (simp add: s1_def legacy_step_other)
  qed
  have ih: "fst (fold legacy_service_device xs (nr1, s1)) =
     (nr1 \<or> (\<exists>d\<in>set xs. legacy_invoked (devices s1 d) \<and> ret_resched (legacy_answer d (devices s1 d))))
   \<and> trace (snd (fold legacy_service_device xs (nr1, s1))) =
       trace s1 @ concat (map (\<lambda>d. legacy_events d (devices s1 d)) xs)
   \<and> (\<forall>e. e \<notin> set xs \<longrightarrow> devices (snd (fold legacy_service_device xs (nr1, s1))) e = devices s1 e)
   \<and> (\<forall>d\<in>set xs. cfg_command (devices (snd (fold legacy_service_device xs (nr1, s1))) d) =
        (if legacy_force_mask d (devices s1 d)
         then cfg_command (devices s1 d) OR PCIE_CFG_COMMAND_INT_DISABLE
         else cfg_command (devices s1 d)))"
    by (rule Cons.IH [OF dx])
  have n1: "nr1 = (nr \<or> (legacy_invoked (devices s x) \<and> ret_resched (legacy_answer x (devices s x))))"
    by (simp add: nr1_def legacy_step_resched)
  have t1: "trace s1 = trace s @ legacy_events x (devices s x)"
    by (simp add: s1_def legacy_step_trace)
  have c1: "cfg_command (devices s1 x) =
     (if legacy_force_mask x (devices s x)
      then cfg_command (devices s x) OR PCIE_CFG_COMMAND_INT_DISABLE
      else cfg_command (devices s x))"
    by (simp add: s1_def legacy_step_command)
  have o1: "\<And>e. e \<noteq> x \<Longrightarrow> devices s1 e = devices s e"
    by (simp add: s1_def legacy_step_other)
  have mp: "map (\<lambda>d. legacy_events d (devices s1 d)) xs = map (\<lambda>d. legacy_events d (devices s d)) xs"
    using same by (simp cong: map_cong)
  have ex: "(\<exists>d\<in>set xs. legacy_invoked (devices s1 d) \<and> ret_resched (legacy_answer d (devices s1 d)))
        = (\<exists>d\<in>set xs. legacy_invoked (devices s d) \<and> ret_resched (legacy_answer d (devices s d)))"
    using same by (simp cong: bex_cong)
  have fx: "devices (snd (fold legacy_service_device xs (nr1, s1))) x = devices s1 x"
    using ih xn by blast
  have p1: "fst (fold legacy_service_device (x # xs) (nr, s)) =
     (nr \<or> (\<exists>d\<in>set (x # xs). legacy_invoked (devices s d) \<and> ret_resched (legacy_answer d (devices s d))))"
    using ih n1 ex by (auto simp: step)
  have p2: "trace (snd (fold legacy_service_device (x # xs) (nr, s))) =
       trace s @ concat (map (\<lambda>d. legacy_events d (devices s d)) (x # xs))"
    using ih t1 mp by (simp add: step)
  have p3: "\<forall>e. e \<notin> set (x # xs) \<longrightarrow>
      devices (snd (fold legacy_service_device (x # xs) (nr, s))) e = devices s e"
    using ih o1 by (simp add: step)
  have p4: "\<forall>d\<in>set (x # xs). cfg_command (devices (snd (fold legacy_service_device (x # xs) (nr, s))) d) =
        (if legacy_force_mask d (devices s d)
         then cfg_command (devices s d) OR PCIE_CFG_COMMAND_INT_DISABLE
         else cfg_command (devices s d))"
  proof
    fix d assume "d \<in> set (x # xs)"
    then consider "d = x" | "d \<in> set xs" by auto
    then show "cfg_command (devices (snd (fold legacy_service_device (x # xs) (nr, s))) d) =
        (if legacy_force_mask d (devices s d)
         then cfg_command (devices s d) OR PCIE_CFG_COMMAND_INT_DISABLE
         else cfg_command (devices s d))"
    proof cases
      case 1
      then show ?thesis using fx c1 by (simp add: step)
    next
      case 2
      then show ?thesis using ih same by (simp add: step)
    qed
  qed
  show ?case using p1 p2 p3 p4 by blast
qed

text \<open>
  C6. A dispatch pass over a non-empty list of distinct devices serves them in list
  order, and attach appends at the tail, so list order is insertion order. For each
  device the pass calls the callback (with IRQ id 0 and the slot's context) exactly when
  the device is invoked in the sense above, and then writes the command register with
  INT_DISABLE set exactly when the device is force-masked; nothing else is written. The
  pass answers RESCHEDULE exactly when some invoked handler asked for it.
\<close>

theorem legacy_dispatch_pass:
  assumes "distinct (device_handler_list s irq)"
      and "device_handler_list s irq \<noteq> []"
  shows "trace (snd (SharedLegacyIrqHandler_Handler irq s)) =
           trace s @ concat (map (\<lambda>d. legacy_events d (devices s d)) (device_handler_list s irq))
         \<and> (\<forall>d\<in>set (device_handler_list s irq).
              cfg_command (devices (snd (SharedLegacyIrqHandler_Handler irq s)) d) =
                (if legacy_force_mask d (devices s d)
                 then cfg_command (devices s d) OR PCIE_CFG_COMMAND_INT_DISABLE
                 else cfg_command (devices s d)))
         \<and> (fst (SharedLegacyIrqHandler_Handler irq s) = INT_RESCHEDULE) =
             (\<exists>d\<in>set (device_handler_list s irq).
                legacy_invoked (devices s d) \<and> ret_resched (legacy_answer d (devices s d)))
         \<and> (fst (SharedLegacyIrqHandler_Handler irq s) = INT_NO_RESCHEDULE) =
             (\<not> (\<exists>d\<in>set (device_handler_list s irq).
                legacy_invoked (devices s d) \<and> ret_resched (legacy_answer d (devices s d))))
         \<and> device_handler_list (SharedLegacyIrqHandler_AddDevice irq e s) irq =
             device_handler_list s irq @ [e]"
proof -
  have ls: "device_handler_list (SharedLegacyIrqHandler_AddDevice irq e s) irq =
      device_handler_list s irq @ [e]"
    by (simp add: SharedLegacyIrqHandler_AddDevice_def prim_defs Let_def)
  show ?thesis
    using legacy_pass [OF assms(1), of False s] assms(2) ls
    by (simp add: SharedLegacyIrqHandler_Handler_def Let_def)
qed

lemma two_legacy_devices_facts:
  "device_handler_list two_legacy_devices 17 = [0, 1]
   \<and> legacy_events 0 (devices two_legacy_devices 0) = [Call_handler 0 0 7]
   \<and> legacy_events 1 (devices two_legacy_devices 1) =
       [Call_handler 1 0 9, Cfg_write_command 1 0x0400]
   \<and> legacy_invoked (devices two_legacy_devices 0)
   \<and> ret_resched (legacy_answer 0 (devices two_legacy_devices 0))"
  by code_simp

theorem legacy_dispatch_pass_witness:
  "device_handler_list two_legacy_devices 17 = [0, 1]
   \<and> trace (snd (SharedLegacyIrqHandler_Handler 17 two_legacy_devices)) =
       trace two_legacy_devices @ [Call_handler 0 0 7, Call_handler 1 0 9, Cfg_write_command 1 0x0400]
   \<and> fst (SharedLegacyIrqHandler_Handler 17 two_legacy_devices) = INT_RESCHEDULE"
proof -
  have d: "distinct (device_handler_list two_legacy_devices 17)"
    using two_legacy_devices_facts by simp
  have n: "device_handler_list two_legacy_devices 17 \<noteq> []"
    using two_legacy_devices_facts by simp
  from legacy_dispatch_pass [OF d n] two_legacy_devices_facts show ?thesis
    by simp
qed

section \<open>MSI mode\<close>

subsection \<open>Masking one vector\<close>

lemma locked_trace:
  "trace (snd (pcie_mask_unmask_msi_irq_locked p d i m s)) =
     trace s
     @ (if msi_pvm_mask_reg (devices s d)
        then [Msi_write_pvm_mask d
                (if m then mask_bits (cap_msi (devices s d)) OR push_bit i 1
                 else mask_bits (cap_msi (devices s d)) AND NOT (push_bit i 1))]
        else [])
     @ (if supports_msi_masking p then [Plat_MaskUnmaskMsi d i m] else [])"
  by (simp add: pcie_mask_unmask_msi_irq_locked_def Let_def prim_defs)

lemma locked_regs:
  "msi_pvm_mask_reg (devices (snd (pcie_mask_unmask_msi_irq_locked p d i m s)) d) =
     msi_pvm_mask_reg (devices s d)
   \<and> mask_bits (cap_msi (devices (snd (pcie_mask_unmask_msi_irq_locked p d i m s)) d)) =
       (if msi_pvm_mask_reg (devices s d)
        then (if m then mask_bits (cap_msi (devices s d)) OR push_bit i 1
              else mask_bits (cap_msi (devices s d)) AND NOT (push_bit i 1))
        else mask_bits (cap_msi (devices s d)))"
  by (simp add: pcie_mask_unmask_msi_irq_locked_def Let_def prim_defs upd_hstate_fields)

subsection \<open>The slots number themselves\<close>

text \<open>
  After \<^verbatim>\<open>pcie_alloc_irq_handlers\<close> has succeeded, slot \<^verbatim>\<open>i\<close> of the table exists and
  carries the device and the id \<^verbatim>\<open>i\<close>, for every \<^verbatim>\<open>i\<close> below the number of slots: the
  cookie the platform hands to the MSI dispatcher names its own vector.
\<close>

lemma finish_loop_ids:
  assumes "\<forall>i<n. get_hstate i (devices s d) \<noteq> None" and "k \<le> n"
  shows "(\<forall>i<n. get_hstate i (devices (fold (\<lambda>i. upd_dev d (upd_hstate i
              (\<lambda>h. h\<lparr>hs_dev := Some d, pci_irq_id := i\<rparr>))) [0..<k] s) d) \<noteq> None)
         \<and> (\<forall>i<k. map_option pci_irq_id (get_hstate i (devices (fold (\<lambda>i. upd_dev d (upd_hstate i
              (\<lambda>h. h\<lparr>hs_dev := Some d, pci_irq_id := i\<rparr>))) [0..<k] s) d)) = Some i)"
  using assms(2)
proof (induction k)
  case 0
  then show ?case using assms(1) by simp
next
  case (Suc k)
  define t where "t = fold (\<lambda>i. upd_dev d (upd_hstate i
              (\<lambda>h. h\<lparr>hs_dev := Some d, pci_irq_id := i\<rparr>))) [0..<k] s"
  have ex: "\<forall>i<n. get_hstate i (devices t d) \<noteq> None"
    and ids: "\<forall>i<k. map_option pci_irq_id (get_hstate i (devices t d)) = Some i"
    using Suc unfolding t_def by simp_all
  have unf: "fold (\<lambda>i. upd_dev d (upd_hstate i
              (\<lambda>h. h\<lparr>hs_dev := Some d, pci_irq_id := i\<rparr>))) [0..<Suc k] s =
             upd_dev d (upd_hstate k (\<lambda>h. h\<lparr>hs_dev := Some d, pci_irq_id := k\<rparr>)) t"
    by (simp add: t_def)
  have at: "get_hstate i (devices (upd_dev d (upd_hstate k
               (\<lambda>h. h\<lparr>hs_dev := Some d, pci_irq_id := k\<rparr>)) t) d) =
            (if i = k then map_option (\<lambda>h. h\<lparr>hs_dev := Some d, pci_irq_id := k\<rparr>)
                             (get_hstate k (devices t d))
             else get_hstate i (devices t d))" for i
    by (simp add: upd_dev_fields get_upd_hstate_same get_upd_hstate_other)
  have kn: "k < n" using Suc.prems by simp
  obtain h where h: "get_hstate k (devices t d) = Some h" using ex kn by auto
  show ?case
    unfolding unf using ex ids h by (auto simp: at less_Suc_eq)
qed

lemma alloc_slots_numbered:
  assumes "n = 1 \<or> calloc_succeeds p n" and "1 \<le> n" and "i < n"
  shows "map_option pci_irq_id
           (get_hstate i (devices (snd (pcie_alloc_irq_handlers p d n s)) d)) = Some i"
proof (cases "n = 1")
  case True
  then show ?thesis using assms(3)
    by (simp add: pcie_alloc_irq_handlers_def finish_bookkeeping_def upd_dev_fields
        upd_hstate_def get_hstate_def)
next
  case False
  define t where "t = upd_dev d (\<lambda>v. v\<lparr>irq_handlers := HANDLERS_HEAP (replicate n zero_handler_state),
                                irq_handler_count := n\<rparr>) (emit (Heap_calloc d n True) s)"
  have r: "snd (pcie_alloc_irq_handlers p d n s) = finish_bookkeeping d t"
    using False assms(1) by (simp add: pcie_alloc_irq_handlers_def t_def)
  have cnt: "irq_handler_count (devices t d) = n"
    by (simp add: t_def upd_dev_fields)
  have ex: "\<forall>i<n. get_hstate i (devices t d) \<noteq> None"
    by (simp add: t_def upd_dev_fields get_hstate_def)
  show ?thesis
    using finish_loop_ids [OF ex, of n] assms(3)
    by (simp add: r finish_bookkeeping_def cnt)
qed

subsection \<open>The MSI dispatcher\<close>

text \<open>
  C7. A dispatch on the vector of an existing slot \<^verbatim>\<open>k\<close> (whose \<^verbatim>\<open>pci_irq_id\<close> is
  \<^verbatim>\<open>k\<close>). When the platform or the device can mask, the vector is masked first (the
  per-vector mask bit is written, the platform is asked to mask) and the previous
  \<^verbatim>\<open>masked\<close> flag is the slot's; when neither can, nothing is written and the previous
  value counts as false. If the vector was masked on entry or no handler is installed, the
  dispatcher answers NO_RESCHEDULE, calls no handler and does not unmask: the slot's flag
  is true when masking is possible. Otherwise the handler is called once with the device,
  \<^verbatim>\<open>k\<close> and the slot's context; the unmask writes follow exactly when the answer lacks
  MASK, and the dispatcher answers RESCHEDULE exactly when the answer has RESCHED.
\<close>

theorem msi_dispatch:
  assumes "get_hstate k (devices s d) = Some h"
      and "pci_irq_id h = k"
  shows
    "let v = devices s d;
         can_mask = (supports_msi_masking p \<or> msi_pvm_mask_reg v);
         mb = mask_bits (cap_msi v);
         mask_evs = (if msi_pvm_mask_reg v then [Msi_write_pvm_mask d (mb OR push_bit k 1)] else [])
                    @ (if supports_msi_masking p then [Plat_MaskUnmaskMsi d k True] else []);
         unmask_evs = (if msi_pvm_mask_reg v
                       then [Msi_write_pvm_mask d ((mb OR push_bit k 1) AND NOT (push_bit k 1))]
                       else [])
                      @ (if supports_msi_masking p then [Plat_MaskUnmaskMsi d k False] else []);
         r = pcie_msi_irq_handler p d k s;
         flag = map_option masked (get_hstate k (devices (snd r) d))
     in (case handler h of
           None \<Rightarrow>
             fst r = INT_NO_RESCHEDULE \<and> trace (snd r) = trace s @ mask_evs
             \<and> flag = Some (can_mask \<or> masked h)
         | Some f \<Rightarrow>
             (if can_mask \<and> masked h then
                fst r = INT_NO_RESCHEDULE \<and> trace (snd r) = trace s @ mask_evs
                \<and> flag = Some True
              else
                fst r = (if ret_resched (f d k (ctx h)) then INT_RESCHEDULE else INT_NO_RESCHEDULE)
                \<and> trace (snd r) =
                    trace s @ mask_evs @ [Call_handler d k (ctx h)]
                    @ (if ret_mask (f d k (ctx h)) then [] else unmask_evs)
                \<and> flag = Some (ret_mask (f d k (ctx h)) \<and> (can_mask \<or> masked h))))"
proof -
  let ?t = "snd (pcie_mask_unmask_msi_irq_locked p d k True s)"
  have prev: "fst (pcie_mask_unmask_msi_irq_locked p d k True s) = masked h"
    by (rule locked_returns_previous [OF assms(1)])
  have slot1: "get_hstate k (devices ?t d) = Some (h\<lparr>masked := True\<rparr>)"
    by (rule locked_sets_flag [OF assms(1)])
  have slot2: "get_hstate k
      (devices (snd (pcie_mask_unmask_msi_irq_locked p d k False
         (emit (Call_handler d k (ctx h)) ?t))) d) = Some (h\<lparr>masked := True, masked := False\<rparr>)"
    using locked_sets_flag [of k "emit (Call_handler d k (ctx h)) ?t" d "h\<lparr>masked := True\<rparr>" p False]
      slot1 by (simp add: emit_def)
  have slot3: "get_hstate k
      (devices (snd (pcie_mask_unmask_msi_irq_locked p d k False
         (emit (Call_handler d k (ctx h)) s))) d) = Some (h\<lparr>masked := False\<rparr>)"
    using locked_sets_flag [of k "emit (Call_handler d k (ctx h)) s" d h p False]
      assms(1) by (simp add: emit_def)
  have regs_e: "\<And>e t. msi_pvm_mask_reg (devices (emit e t) d) = msi_pvm_mask_reg (devices t d)
      \<and> mask_bits (cap_msi (devices (emit e t) d)) = mask_bits (cap_msi (devices t d))
      \<and> trace (emit e t) = trace t @ [e]
      \<and> get_hstate k (devices (emit e t) d) = get_hstate k (devices t d)"
    by (simp add: emit_def)
  show ?thesis
  proof (cases "handler h")
    case None
    then show ?thesis
      using assms prev slot1
      by (simp add: pcie_msi_irq_handler_def Let_def locked_trace)
  next
    case (Some f)
    show ?thesis
    proof (cases "(supports_msi_masking p \<or> msi_pvm_mask_reg (devices s d)) \<and> masked h")
      case True
      then show ?thesis
        using assms prev slot1 Some
        by (simp add: pcie_msi_irq_handler_def Let_def locked_trace)
    next
      case False
      show ?thesis
      proof (cases "supports_msi_masking p \<or> msi_pvm_mask_reg (devices s d)")
        case True
        with False have nm: "\<not> masked h" by simp
        show ?thesis
          using assms prev slot1 slot2 Some True nm locked_regs [of p d k True s]
          by (simp add: pcie_msi_irq_handler_def Let_def locked_trace regs_e)
      next
        case False
        then show ?thesis
          using assms slot3 Some
          by (simp add: pcie_msi_irq_handler_def Let_def locked_trace regs_e)
      qed
    qed
  qed
qed

lemma msi_vector2_machine_facts:
  "map_option masked (get_hstate 2 (devices msi_vector2_machine 0)) = Some False
   \<and> map_option pci_irq_id (get_hstate 2 (devices msi_vector2_machine 0)) = Some 2
   \<and> map_option ctx (get_hstate 2 (devices msi_vector2_machine 0)) = Some 5
   \<and> map_option (\<lambda>h. map_option (\<lambda>f. f 0 2 5) (handler h))
        (get_hstate 2 (devices msi_vector2_machine 0)) = Some (Some PCIE_IRQRET_NO_ACTION)
   \<and> msi_pvm_mask_reg (devices msi_vector2_machine 0)
   \<and> supports_msi_masking platform0
   \<and> mask_bits (cap_msi (devices msi_vector2_machine 0)) = 0xFFFFFFFB"
  by code_simp

theorem msi_dispatch_witness:
  "fst (pcie_msi_irq_handler platform0 0 2 msi_vector2_machine) = INT_NO_RESCHEDULE
   \<and> trace (snd (pcie_msi_irq_handler platform0 0 2 msi_vector2_machine)) =
       trace msi_vector2_machine
       @ [Msi_write_pvm_mask 0 0xFFFFFFFF, Plat_MaskUnmaskMsi 0 2 True, Call_handler 0 2 5,
          Msi_write_pvm_mask 0 0xFFFFFFFB, Plat_MaskUnmaskMsi 0 2 False]
   \<and> map_option masked
       (get_hstate 2 (devices (snd (pcie_msi_irq_handler platform0 0 2 msi_vector2_machine)) 0)) =
       Some False"
proof -
  obtain h where h: "get_hstate 2 (devices msi_vector2_machine 0) = Some h"
    and i: "pci_irq_id h = 2" and m: "\<not> masked h" and c: "ctx h = 5"
    and f: "map_option (\<lambda>f. f 0 2 5) (handler h) = Some PCIE_IRQRET_NO_ACTION"
    using msi_vector2_machine_facts by auto
  from f obtain g where g: "handler h = Some g" and a: "g 0 2 5 = PCIE_IRQRET_NO_ACTION"
    by auto
  have w: "(0xFFFFFFFB :: 32 word) OR push_bit 2 1 = 0xFFFFFFFF
           \<and> (0xFFFFFFFF :: 32 word) AND NOT (push_bit 2 1) = 0xFFFFFFFB"
    by simp
  from msi_dispatch [OF h i, of platform0] m c g a w msi_vector2_machine_facts
  show ?thesis by (simp add: Let_def)
qed

subsection \<open>Leaving MSI mode\<close>

lemma free_loop_devices:
  "devices (fold (\<lambda>i t. emit (Plat_RegisterMsiHandler d i None)
                         (if c then emit (Plat_MaskUnmaskMsi d i True) t else t)) xs s) = devices s"
  by (induction xs arbitrary: s) (simp_all add: emit_fields)

lemma free_loop_trace:
  "trace (fold (\<lambda>i t. emit (Plat_RegisterMsiHandler d i None)
                       (if c then emit (Plat_MaskUnmaskMsi d i True) t else t)) xs s) =
     trace s @ concat (map (\<lambda>i. (if c then [Plat_MaskUnmaskMsi d i True] else [])
                                 @ [Plat_RegisterMsiHandler d i None]) xs)"
  by (induction xs arbitrary: s) (simp_all add: emit_fields)

lemma free_block_device:
  "devices (pcie_free_msi_block p d s) d =
     (if allocated (msi_irq_block (devices s d))
      then (devices s d)\<lparr>msi_irq_block := FreeMsiBlock p (msi_irq_block (devices s d))\<rparr>
      else devices s d)"
  by (simp add: pcie_free_msi_block_def Let_def emit_fields upd_dev_fields free_loop_devices)

lemma free_block_trace:
  "trace (pcie_free_msi_block p d s) =
     trace s @ free_block_events (supports_msi_masking p) d (msi_irq_block (devices s d))"
  by (simp add: pcie_free_msi_block_def Let_def emit_fields upd_dev_fields free_loop_trace
      free_block_events_def)

lemma ctrl_enb_clear: "PCIE_CAP_MSI_CTRL_SET_ENB False c AND 0x0001 = 0"
  by (simp add: PCIE_CAP_MSI_CTRL_SET_ENB_def and.assoc)

lemma target_no_slots:
  assumes "irq_handler_count (devices s d) = 0"
  shows "devices (pcie_set_msi_target p d a b s) d =
           (devices s d)\<lparr>cap_msi :=
              (if msi_is64bit (devices s d)
               then (cap_msi (devices s d))
                      \<lparr>ctrl := PCIE_CAP_MSI_CTRL_SET_ENB False (ctrl (cap_msi (devices s d))),
                       mask_bits := (if msi_pvm_mask_reg (devices s d) then 0xFFFFFFFF
                                     else mask_bits (cap_msi (devices s d))),
                       addr := ucast (a AND 0xFFFFFFFF),
                       addr_upper := ucast (drop_bit 32 a),
                       data_64bit := ucast (b AND 0xFFFF)\<rparr>
               else (cap_msi (devices s d))
                      \<lparr>ctrl := PCIE_CAP_MSI_CTRL_SET_ENB False (ctrl (cap_msi (devices s d))),
                       mask_bits := (if msi_pvm_mask_reg (devices s d) then 0xFFFFFFFF
                                     else mask_bits (cap_msi (devices s d))),
                       addr := ucast (a AND 0xFFFFFFFF),
                       data_32bit := ucast (b AND 0xFFFF)\<rparr>)\<rparr>"
  using assms
  by (simp add: pcie_set_msi_target_def pcie_set_msi_enb_def pcie_mask_all_msi_vectors_def
      Let_def prim_defs)

lemma target_no_slots_trace:
  assumes "irq_handler_count (devices s d) = 0"
  shows "trace (pcie_set_msi_target p d 0 0 s) =
           trace s
           @ [Msi_write_ctrl d (PCIE_CAP_MSI_CTRL_SET_ENB False (ctrl (cap_msi (devices s d))))]
           @ (if msi_pvm_mask_reg (devices s d) then [Msi_write_pvm_mask d 0xFFFFFFFF] else [])
           @ [Msi_write_addr d 0]
           @ (if msi_is64bit (devices s d)
              then [Msi_write_addr_upper d 0, Msi_write_data_64bit d 0]
              else [Msi_write_data_32bit d 0])"
  using assms
  by (simp add: pcie_set_msi_target_def pcie_set_msi_enb_def pcie_mask_all_msi_vectors_def
      Let_def prim_defs)

lemma leave_msi_unwinds:
  assumes "irq_handler_count (devices s d) = 0"
  shows "irq_mode (devices (pcie_leave_msi_irq_mode p d s) d) = PCIE_IRQ_MODE_DISABLED
         \<and> handlers_is_null (irq_handlers (devices (pcie_leave_msi_irq_mode p d s) d))
         \<and> irq_handler_count (devices (pcie_leave_msi_irq_mode p d s) d) = 0
         \<and> msi_irq_block (devices (pcie_leave_msi_irq_mode p d s) d) =
             (if allocated (msi_irq_block (devices s d))
              then FreeMsiBlock p (msi_irq_block (devices s d))
              else msi_irq_block (devices s d))
         \<and> ctrl (cap_msi (devices (pcie_leave_msi_irq_mode p d s) d)) AND 0x0001 = 0
         \<and> mask_bits (cap_msi (devices (pcie_leave_msi_irq_mode p d s) d)) =
             (if msi_pvm_mask_reg (devices s d) then 0xFFFFFFFF
              else mask_bits (cap_msi (devices s d)))
         \<and> trace (pcie_leave_msi_irq_mode p d s) =
             trace s
             @ [Msi_write_ctrl d (PCIE_CAP_MSI_CTRL_SET_ENB False (ctrl (cap_msi (devices s d))))]
             @ (if msi_pvm_mask_reg (devices s d) then [Msi_write_pvm_mask d 0xFFFFFFFF] else [])
             @ [Msi_write_addr d 0]
             @ (if msi_is64bit (devices s d)
                then [Msi_write_addr_upper d 0, Msi_write_data_64bit d 0]
                else [Msi_write_data_32bit d 0])
             @ free_block_events (supports_msi_masking p) d (msi_irq_block (devices s d))"
proof -
  define t where "t = pcie_set_msi_target p d 0 0 s"
  define u where "u = pcie_free_msi_block p d t"
  have dt: "irq_handler_count (devices t d) = 0"
    and bt: "msi_irq_block (devices t d) = msi_irq_block (devices s d)"
    and ct: "ctrl (cap_msi (devices t d)) AND 0x0001 = 0"
    and mt: "mask_bits (cap_msi (devices t d)) =
               (if msi_pvm_mask_reg (devices s d) then 0xFFFFFFFF
                else mask_bits (cap_msi (devices s d)))"
    using assms by (simp_all add: t_def target_no_slots ctrl_enb_clear)
  have du: "irq_handler_count (devices u d) = 0"
    and bu: "msi_irq_block (devices u d) =
               (if allocated (msi_irq_block (devices s d))
                then FreeMsiBlock p (msi_irq_block (devices s d))
                else msi_irq_block (devices s d))"
    and cu: "ctrl (cap_msi (devices u d)) AND 0x0001 = 0"
    and mu: "mask_bits (cap_msi (devices u d)) =
               (if msi_pvm_mask_reg (devices s d) then 0xFFFFFFFF
                else mask_bits (cap_msi (devices s d)))"
    using dt bt ct mt by (simp_all add: u_def free_block_device)
  have tu: "trace u =
      trace s
      @ [Msi_write_ctrl d (PCIE_CAP_MSI_CTRL_SET_ENB False (ctrl (cap_msi (devices s d))))]
      @ (if msi_pvm_mask_reg (devices s d) then [Msi_write_pvm_mask d 0xFFFFFFFF] else [])
      @ [Msi_write_addr d 0]
      @ (if msi_is64bit (devices s d)
         then [Msi_write_addr_upper d 0, Msi_write_data_64bit d 0]
         else [Msi_write_data_32bit d 0])
      @ free_block_events (supports_msi_masking p) d (msi_irq_block (devices s d))"
    using target_no_slots_trace [OF assms, of p] bt
    by (simp add: u_def free_block_trace t_def [symmetric])
  have r: "pcie_leave_msi_irq_mode p d s = pcie_reset_common_irq_bookkeeping d u"
    by (simp add: pcie_leave_msi_irq_mode_def u_def t_def)
  show ?thesis
    unfolding r using du bu cu mu tu
    by (simp add: pcie_reset_common_irq_bookkeeping_def Let_def upd_dev_fields)
qed

subsection \<open>Entering MSI mode: the failure paths\<close>

text \<open>
  C1 (as amended). A plugged-in, MSI-capable device in the DISABLED state (mode DISABLED,
  no handlers) on a platform that supports MSI is asked for \<^verbatim>\<open>n\<close> vectors, with
  \<^verbatim>\<open>1 \<le> n \<le> max_irqs\<close>. If \<^verbatim>\<open>pcie_set_irq_mode(dev, MSI, n)\<close> fails, then the block
  allocation failed or the handler-table allocation failed, and the status of the failing
  step is returned (the platform's, or NO_MEMORY). What the call has done when it returns
  is, in this order: the request to the platform (and the failed \<^verbatim>\<open>calloc\<close>); the
  control register written with ENABLE cleared; the per-vector mask register written
  with every bit set, when the device has one; the target address and data written with
  zero; and, when the platform left a block allocated, for every vector of the block the
  platform asked to mask it (when the platform can mask) and its handler unregistered, and
  then \<^verbatim>\<open>FreeMsiBlock\<close>. The device is back in the DISABLED state: mode DISABLED, no
  handler table, \<^verbatim>\<open>handler_count\<close> 0, the ENABLE bit 0, and the block is the one the
  platform's \<^verbatim>\<open>FreeMsiBlock\<close> leaves behind, which is no longer allocated (the source
  asserts this of the platform). Vectors are masked by the mechanisms that exist: where
  the device has no per-vector masking and the platform cannot mask, none is masked.
\<close>

theorem enter_msi_failure_unwinds:
  assumes "irq_mode (devices s d) = PCIE_IRQ_MODE_DISABLED"
      and "irq_handler_count (devices s d) = 0"
      and "plugged_in (devices s d)" and "\<not> disabled (devices s d)"
      and "msi_cfg (devices s d)" and "supports_msi p"
      and "1 \<le> n" and "n \<le> msi_max_irqs (devices s d)"
      and "\<forall>b. \<not> allocated (FreeMsiBlock p b)"
      and "fst (pcie_set_irq_mode p d PCIE_IRQ_MODE_MSI n s) \<noteq> NO_ERROR"
  shows
    "let v = devices s d;
         a = AllocMsiBlock p n (msi_is64bit v) False (msi_irq_block v);
         r = pcie_set_irq_mode p d PCIE_IRQ_MODE_MSI n s;
         w = devices (snd r) d
     in (fst a \<noteq> NO_ERROR \<or> (n \<noteq> 1 \<and> \<not> calloc_succeeds p n))
        \<and> fst r = (if fst a \<noteq> NO_ERROR then fst a else ERR_NO_MEMORY)
        \<and> trace (snd r) =
            trace s
            @ [Plat_AllocMsiBlock d n (msi_is64bit v) False (fst a)]
            @ (if fst a = NO_ERROR then [Heap_calloc d n False] else [])
            @ [Msi_write_ctrl d (PCIE_CAP_MSI_CTRL_SET_ENB False (ctrl (cap_msi v)))]
            @ (if msi_pvm_mask_reg v then [Msi_write_pvm_mask d 0xFFFFFFFF] else [])
            @ [Msi_write_addr d 0]
            @ (if msi_is64bit v
               then [Msi_write_addr_upper d 0, Msi_write_data_64bit d 0]
               else [Msi_write_data_32bit d 0])
            @ free_block_events (supports_msi_masking p) d (snd a)
        \<and> irq_mode w = PCIE_IRQ_MODE_DISABLED
        \<and> handlers_is_null (irq_handlers w)
        \<and> irq_handler_count w = 0
        \<and> msi_irq_block w = (if allocated (snd a) then FreeMsiBlock p (snd a) else snd a)
        \<and> \<not> allocated (msi_irq_block w)
        \<and> ctrl (cap_msi w) AND 0x0001 = 0
        \<and> mask_bits (cap_msi w) =
            (if msi_pvm_mask_reg v then 0xFFFFFFFF else mask_bits (cap_msi v))"
proof -
  define v where "v = devices s d"
  define a where "a = AllocMsiBlock p n (msi_is64bit v) False (msi_irq_block v)"
  define s1 where "s1 = emit (Plat_AllocMsiBlock d n (msi_is64bit v) False (fst a))
                          (upd_dev d (\<lambda>x. x\<lparr>msi_irq_block := snd a\<rparr>) s)"
  have f1: "irq_handler_count (devices s1 d) = 0"
           "msi_pvm_mask_reg (devices s1 d) = msi_pvm_mask_reg v"
           "msi_is64bit (devices s1 d) = msi_is64bit v"
           "cap_msi (devices s1 d) = cap_msi v"
           "msi_irq_block (devices s1 d) = snd a"
           "trace s1 = trace s @ [Plat_AllocMsiBlock d n (msi_is64bit v) False (fst a)]"
    using assms(2) by (simp_all add: s1_def v_def upd_dev_fields emit_fields)
  have enter: "pcie_set_irq_mode p d PCIE_IRQ_MODE_MSI n s = pcie_enter_msi_irq_mode p d n s"
    using assms(1,3,4,7) by (simp add: pcie_set_irq_mode_def pcie_set_irq_mode_internal_def)
  have guards: "msi_cfg (devices s d) \<and> supports_msi p \<and> n \<le> msi_max_irqs (devices s d)"
    using assms(5,6,8) by simp
  show ?thesis
  proof (cases "fst a = NO_ERROR")
    case False
    have r: "pcie_enter_msi_irq_mode p d n s = (fst a, pcie_leave_msi_irq_mode p d s1)"
      using guards False
      by (simp add: pcie_enter_msi_irq_mode_def Let_def a_def s1_def v_def)
    show ?thesis
      unfolding Let_def enter r
      using leave_msi_unwinds [OF f1(1), of p] False f1 assms(9)
      by (simp add: v_def [symmetric] a_def [symmetric])
  next
    case True
    define s2 where "s2 = upd_dev d (\<lambda>x. x\<lparr>irq_handlers := HANDLERS_NULL\<rparr>)
                            (emit (Heap_calloc d n False) s1)"
    have fail: "n \<noteq> 1 \<and> \<not> calloc_succeeds p n"
      using guards assms(10) True
      by (auto simp: enter pcie_enter_msi_irq_mode_def Let_def a_def [unfolded v_def, symmetric]
          pcie_alloc_irq_handlers_def split: if_splits)
    have h: "pcie_alloc_irq_handlers p d n s1 = (ERR_NO_MEMORY, s2)"
      using fail by (simp add: pcie_alloc_irq_handlers_def s2_def)
    have f2: "irq_handler_count (devices s2 d) = 0"
             "msi_pvm_mask_reg (devices s2 d) = msi_pvm_mask_reg v"
             "msi_is64bit (devices s2 d) = msi_is64bit v"
             "cap_msi (devices s2 d) = cap_msi v"
             "msi_irq_block (devices s2 d) = snd a"
             "trace s2 = trace s @ [Plat_AllocMsiBlock d n (msi_is64bit v) False (fst a),
                                   Heap_calloc d n False]"
      using f1 by (simp_all add: s2_def upd_dev_fields emit_fields)
    have r: "pcie_enter_msi_irq_mode p d n s = (ERR_NO_MEMORY, pcie_leave_msi_irq_mode p d s2)"
      using guards True h [unfolded s1_def v_def True]
      by (simp add: pcie_enter_msi_irq_mode_def Let_def a_def [unfolded v_def, symmetric])
    show ?thesis
      unfolding Let_def enter r
      using leave_msi_unwinds [OF f2(1), of p] True f2 assms(9) fail
      by (simp add: v_def [symmetric] a_def [symmetric])
  qed
qed

lemma machine0_facts:
  "irq_mode (devices machine0 0) = PCIE_IRQ_MODE_DISABLED
   \<and> irq_handler_count (devices machine0 0) = 0
   \<and> plugged_in (devices machine0 0) \<and> \<not> disabled (devices machine0 0)
   \<and> msi_cfg (devices machine0 0) \<and> msi_max_irqs (devices machine0 0) = 8
   \<and> msi_pvm_mask_reg (devices machine0 0)
   \<and> msi_is64bit (devices machine0 0)
   \<and> mask_bits (cap_msi (devices machine0 0)) = 0
   \<and> ctrl (cap_msi (devices machine0 0)) = 0
   \<and> trace machine0 = []"
  by code_simp

lemma machine_nopvm_facts:
  "irq_mode (devices machine_nopvm 0) = PCIE_IRQ_MODE_DISABLED
   \<and> irq_handler_count (devices machine_nopvm 0) = 0
   \<and> plugged_in (devices machine_nopvm 0) \<and> \<not> disabled (devices machine_nopvm 0)
   \<and> msi_cfg (devices machine_nopvm 0) \<and> msi_max_irqs (devices machine_nopvm 0) = 8
   \<and> \<not> msi_pvm_mask_reg (devices machine_nopvm 0)
   \<and> \<not> msi_is64bit (devices machine_nopvm 0)
   \<and> mask_bits (cap_msi (devices machine_nopvm 0)) = 0
   \<and> ctrl (cap_msi (devices machine_nopvm 0)) = 0
   \<and> trace machine_nopvm = []"
  by code_simp

lemma failing_platform_facts:
  "supports_msi platform_noblock \<and> supports_msi platform_nomem
   \<and> supports_msi_masking platform_nomem \<and> supports_msi_masking platform_noblock
   \<and> fst (pcie_set_irq_mode platform_noblock 0 PCIE_IRQ_MODE_MSI 4 machine0) = ERR_NO_RESOURCES
   \<and> fst (pcie_set_irq_mode platform_nomem 0 PCIE_IRQ_MODE_MSI 4 machine_nopvm) = ERR_NO_MEMORY
   \<and> AllocMsiBlock platform_noblock 4 True False (msi_irq_block (devices machine0 0)) =
       (ERR_NO_RESOURCES, \<lparr>allocated = False, num_irq = 0, tgt_addr = 0, tgt_data = 0\<rparr>)
   \<and> AllocMsiBlock platform_nomem 4 False False (msi_irq_block (devices machine_nopvm 0)) =
       (NO_ERROR, \<lparr>allocated = True, num_irq = 4, tgt_addr = 0xFEE00000, tgt_data = 0x40\<rparr>)
   \<and> FreeMsiBlock platform_nomem
        \<lparr>allocated = True, num_irq = 4, tgt_addr = 0xFEE00000, tgt_data = 0x40\<rparr> =
        \<lparr>allocated = False, num_irq = 4, tgt_addr = 0xFEE00000, tgt_data = 0x40\<rparr>
   \<and> free_block_events True 0
        \<lparr>allocated = True, num_irq = 4, tgt_addr = 0xFEE00000, tgt_data = 0x40\<rparr> =
        [Plat_MaskUnmaskMsi 0 0 True, Plat_RegisterMsiHandler 0 0 None,
         Plat_MaskUnmaskMsi 0 1 True, Plat_RegisterMsiHandler 0 1 None,
         Plat_MaskUnmaskMsi 0 2 True, Plat_RegisterMsiHandler 0 2 None,
         Plat_MaskUnmaskMsi 0 3 True, Plat_RegisterMsiHandler 0 3 None,
         Plat_FreeMsiBlock 0]
   \<and> free_block_events True 0 \<lparr>allocated = False, num_irq = 0, tgt_addr = 0, tgt_data = 0\<rparr> = []
   \<and> PCIE_CAP_MSI_CTRL_SET_ENB False 0 = 0"
  by code_simp

lemma failing_platform_free:
  "(\<forall>b. \<not> allocated (FreeMsiBlock platform_noblock b))
   \<and> (\<forall>b. \<not> allocated (FreeMsiBlock platform_nomem b))"
  by (simp add: platform_noblock_def platform_nomem_def platform0_def)

text \<open>
  Two failing runs. The platform refuses the block for the device with per-vector
  masking: no block is held and nothing is given back. The platform grants 4 vectors to
  the device without per-vector masking and \<^verbatim>\<open>calloc\<close> fails: every vector of the block
  is masked at the platform and unregistered, and the block is freed.
\<close>

theorem enter_msi_failure_unwinds_witness:
  "fst (pcie_set_irq_mode platform_noblock 0 PCIE_IRQ_MODE_MSI 4 machine0) = ERR_NO_RESOURCES
   \<and> trace (snd (pcie_set_irq_mode platform_noblock 0 PCIE_IRQ_MODE_MSI 4 machine0)) =
       [Plat_AllocMsiBlock 0 4 True False ERR_NO_RESOURCES,
        Msi_write_ctrl 0 0, Msi_write_pvm_mask 0 0xFFFFFFFF,
        Msi_write_addr 0 0, Msi_write_addr_upper 0 0, Msi_write_data_64bit 0 0]
   \<and> irq_mode (devices (snd (pcie_set_irq_mode platform_noblock 0 PCIE_IRQ_MODE_MSI 4 machine0)) 0)
       = PCIE_IRQ_MODE_DISABLED
   \<and> mask_bits (cap_msi
       (devices (snd (pcie_set_irq_mode platform_noblock 0 PCIE_IRQ_MODE_MSI 4 machine0)) 0))
       = 0xFFFFFFFF
   \<and> fst (pcie_set_irq_mode platform_nomem 0 PCIE_IRQ_MODE_MSI 4 machine_nopvm) = ERR_NO_MEMORY
   \<and> trace (snd (pcie_set_irq_mode platform_nomem 0 PCIE_IRQ_MODE_MSI 4 machine_nopvm)) =
       [Plat_AllocMsiBlock 0 4 False False NO_ERROR, Heap_calloc 0 4 False,
        Msi_write_ctrl 0 0, Msi_write_addr 0 0, Msi_write_data_32bit 0 0,
        Plat_MaskUnmaskMsi 0 0 True, Plat_RegisterMsiHandler 0 0 None,
        Plat_MaskUnmaskMsi 0 1 True, Plat_RegisterMsiHandler 0 1 None,
        Plat_MaskUnmaskMsi 0 2 True, Plat_RegisterMsiHandler 0 2 None,
        Plat_MaskUnmaskMsi 0 3 True, Plat_RegisterMsiHandler 0 3 None,
        Plat_FreeMsiBlock 0]
   \<and> irq_mode (devices (snd (pcie_set_irq_mode platform_nomem 0 PCIE_IRQ_MODE_MSI 4 machine_nopvm)) 0)
       = PCIE_IRQ_MODE_DISABLED
   \<and> msi_irq_block
       (devices (snd (pcie_set_irq_mode platform_nomem 0 PCIE_IRQ_MODE_MSI 4 machine_nopvm)) 0) =
       \<lparr>allocated = False, num_irq = 4, tgt_addr = 0xFEE00000, tgt_data = 0x40\<rparr>"
proof -
  have a: "fst (pcie_set_irq_mode platform_noblock 0 PCIE_IRQ_MODE_MSI 4 machine0) \<noteq> NO_ERROR"
    and b: "fst (pcie_set_irq_mode platform_nomem 0 PCIE_IRQ_MODE_MSI 4 machine_nopvm) \<noteq> NO_ERROR"
    using failing_platform_facts by simp_all
  have f1: "\<forall>b. \<not> allocated (FreeMsiBlock platform_noblock b)"
    and f2: "\<forall>b. \<not> allocated (FreeMsiBlock platform_nomem b)"
    using failing_platform_free by simp_all
  have n: "(1::nat) \<le> 4" and m: "4 \<le> msi_max_irqs (devices machine0 0)"
    and m': "4 \<le> msi_max_irqs (devices machine_nopvm 0)"
    using machine0_facts machine_nopvm_facts by simp_all
  have u1: "irq_mode (devices machine0 0) = PCIE_IRQ_MODE_DISABLED"
    and u2: "irq_handler_count (devices machine0 0) = 0"
    and u3: "plugged_in (devices machine0 0)" and u4: "\<not> disabled (devices machine0 0)"
    and u5: "msi_cfg (devices machine0 0)"
    and u6: "supports_msi platform_noblock" and u7: "supports_msi platform_nomem"
    using machine0_facts failing_platform_facts by simp_all
  have v1: "irq_mode (devices machine_nopvm 0) = PCIE_IRQ_MODE_DISABLED"
    and v2: "irq_handler_count (devices machine_nopvm 0) = 0"
    and v3: "plugged_in (devices machine_nopvm 0)" and v4: "\<not> disabled (devices machine_nopvm 0)"
    and v5: "msi_cfg (devices machine_nopvm 0)"
    using machine_nopvm_facts by simp_all
  from enter_msi_failure_unwinds [OF u1 u2 u3 u4 u5 u6 n m f1 a]
    enter_msi_failure_unwinds [OF v1 v2 v3 v4 v5 u7 n m' f2 b]
    machine0_facts machine_nopvm_facts failing_platform_facts
  show ?thesis by (simp add: Let_def)
qed

text \<open>
  The device without per-vector masking on the platform that cannot mask MSI vectors: the
  platform grants 2 vectors, \<^verbatim>\<open>calloc\<close> fails, and the unwind gives the block back
  without masking either vector: the run contains no write to a mask register and no
  request to the platform to mask.
\<close>

theorem enter_msi_failure_unmasked_counterexample:
  "\<not> msi_pvm_mask_reg (devices machine_nopvm 0)
   \<and> \<not> supports_msi_masking platform_nomem_nomask
   \<and> fst (pcie_set_irq_mode platform_nomem_nomask 0 PCIE_IRQ_MODE_MSI 2 machine_nopvm) =
       ERR_NO_MEMORY
   \<and> trace (snd (pcie_set_irq_mode platform_nomem_nomask 0 PCIE_IRQ_MODE_MSI 2 machine_nopvm)) =
       [Plat_AllocMsiBlock 0 2 False False NO_ERROR, Heap_calloc 0 2 False,
        Msi_write_ctrl 0 0, Msi_write_addr 0 0, Msi_write_data_32bit 0 0,
        Plat_RegisterMsiHandler 0 0 None, Plat_RegisterMsiHandler 0 1 None,
        Plat_FreeMsiBlock 0]
   \<and> irq_mode (devices (snd (pcie_set_irq_mode platform_nomem_nomask 0 PCIE_IRQ_MODE_MSI 2
        machine_nopvm)) 0) = PCIE_IRQ_MODE_DISABLED"
  by code_simp

subsection \<open>Entering MSI mode: the order of the writes\<close>

lemma strip_upd_hstate: "strip_slots (upd_hstate i f v) = strip_slots v"
  by (cases "irq_handlers v") (simp_all add: strip_slots_def upd_hstate_def)

lemma strip_eqD:
  assumes "strip_slots a = strip_slots b"
  shows "irq_handler_count a = irq_handler_count b \<and> cap_msi a = cap_msi b
         \<and> msi_pvm_mask_reg a = msi_pvm_mask_reg b \<and> msi_is64bit a = msi_is64bit b
         \<and> msi_irq_block a = msi_irq_block b \<and> irq_mode a = irq_mode b"
proof -
  have "irq_handler_count (strip_slots a) = irq_handler_count (strip_slots b)"
    and "cap_msi (strip_slots a) = cap_msi (strip_slots b)"
    and "msi_pvm_mask_reg (strip_slots a) = msi_pvm_mask_reg (strip_slots b)"
    and "msi_is64bit (strip_slots a) = msi_is64bit (strip_slots b)"
    and "msi_irq_block (strip_slots a) = msi_irq_block (strip_slots b)"
    and "irq_mode (strip_slots a) = irq_mode (strip_slots b)"
    using assms by simp_all
  then show ?thesis by (simp add: strip_slots_def)
qed

lemma slot_fold_frame:
  "trace (fold (\<lambda>i. upd_dev d (upd_hstate i (g i))) xs s) = trace s
   \<and> strip_slots (devices (fold (\<lambda>i. upd_dev d (upd_hstate i (g i))) xs s) d) =
       strip_slots (devices s d)"
  by (induction xs arbitrary: s) (simp_all add: upd_dev_fields strip_upd_hstate)

lemma finish_bookkeeping_frame:
  "trace (finish_bookkeeping d s) = trace s
   \<and> strip_slots (devices (finish_bookkeeping d s) d) = strip_slots (devices s d)"
  unfolding finish_bookkeeping_def by (rule slot_fold_frame)

lemma alloc_handlers_success:
  assumes "n = 1 \<or> calloc_succeeds p n"
  shows "fst (pcie_alloc_irq_handlers p d n s) = NO_ERROR
         \<and> trace (snd (pcie_alloc_irq_handlers p d n s)) =
             trace s @ (if n = 1 then [] else [Heap_calloc d n True])
         \<and> irq_handler_count (devices (snd (pcie_alloc_irq_handlers p d n s)) d) = n
         \<and> cap_msi (devices (snd (pcie_alloc_irq_handlers p d n s)) d) = cap_msi (devices s d)
         \<and> msi_pvm_mask_reg (devices (snd (pcie_alloc_irq_handlers p d n s)) d) =
             msi_pvm_mask_reg (devices s d)
         \<and> msi_is64bit (devices (snd (pcie_alloc_irq_handlers p d n s)) d) =
             msi_is64bit (devices s d)
         \<and> msi_irq_block (devices (snd (pcie_alloc_irq_handlers p d n s)) d) =
             msi_irq_block (devices s d)"
proof (cases "n = 1")
  case True
  define t where "t = upd_dev d (\<lambda>v. v\<lparr>irq_singleton_handler := zero_handler_state,
                                irq_handlers := HANDLERS_SINGLETON,
                                irq_handler_count := 1\<rparr>) s"
  have r: "pcie_alloc_irq_handlers p d n s = (NO_ERROR, finish_bookkeeping d t)"
    using True by (simp add: pcie_alloc_irq_handlers_def t_def)
  from strip_eqD [of "devices (finish_bookkeeping d t) d" "devices t d"]
    finish_bookkeeping_frame [of d t] True
  show ?thesis unfolding r by (simp add: t_def upd_dev_fields)
next
  case False
  define t where "t = upd_dev d (\<lambda>v. v\<lparr>irq_handlers := HANDLERS_HEAP (replicate n zero_handler_state),
                                irq_handler_count := n\<rparr>) (emit (Heap_calloc d n True) s)"
  have r: "pcie_alloc_irq_handlers p d n s = (NO_ERROR, finish_bookkeeping d t)"
    using False assms by (simp add: pcie_alloc_irq_handlers_def t_def)
  from strip_eqD [of "devices (finish_bookkeeping d t) d" "devices t d"]
    finish_bookkeeping_frame [of d t] False
  show ?thesis unfolding r by (simp add: t_def upd_dev_fields emit_fields)
qed

text \<open>One turn of the loop of \<^verbatim>\<open>pcie_mask_all_msi_vectors\<close>.\<close>

lemma mask_step_frame:
  "irq_handler_count (devices (snd (pcie_mask_unmask_msi_irq p d i True t)) d) =
     irq_handler_count (devices t d)
   \<and> msi_pvm_mask_reg (devices (snd (pcie_mask_unmask_msi_irq p d i True t)) d) =
       msi_pvm_mask_reg (devices t d)
   \<and> msi_is64bit (devices (snd (pcie_mask_unmask_msi_irq p d i True t)) d) =
       msi_is64bit (devices t d)
   \<and> ctrl (cap_msi (devices (snd (pcie_mask_unmask_msi_irq p d i True t)) d)) =
       ctrl (cap_msi (devices t d))"
  by (simp add: pcie_mask_unmask_msi_irq_def pcie_mask_unmask_msi_irq_locked_def Let_def
      prim_defs upd_hstate_fields)

lemma mask_step_effect:
  assumes "i < irq_handler_count (devices t d)"
  shows "trace (snd (pcie_mask_unmask_msi_irq p d i True t)) =
           trace t
           @ (if msi_pvm_mask_reg (devices t d)
              then [Msi_write_pvm_mask d (mask_bits (cap_msi (devices t d)) OR push_bit i 1)]
              else [])
           @ (if supports_msi_masking p then [Plat_MaskUnmaskMsi d i True] else [])
         \<and> mask_bits (cap_msi (devices (snd (pcie_mask_unmask_msi_irq p d i True t)) d)) =
             (if msi_pvm_mask_reg (devices t d)
              then mask_bits (cap_msi (devices t d)) OR push_bit i 1
              else mask_bits (cap_msi (devices t d)))"
  using assms
  by (simp add: pcie_mask_unmask_msi_irq_def pcie_mask_unmask_msi_irq_locked_def Let_def
      prim_defs upd_hstate_fields)

lemma mask_Suc_or: "(w OR mask k) OR 2 ^ k = w OR mask (Suc k)" for w :: "32 word"
  by (simp add: mask_Suc_exp ac_simps)

lemma mask_loop:
  assumes "k \<le> irq_handler_count (devices s d)"
  shows "trace (fold (\<lambda>i t. snd (pcie_mask_unmask_msi_irq p d i True t)) [0..<k] s) =
           trace s
           @ concat (map (\<lambda>i. (if msi_pvm_mask_reg (devices s d)
                                then [Msi_write_pvm_mask d (mask_bits (cap_msi (devices s d)) OR mask (Suc i))]
                                else [])
                               @ (if supports_msi_masking p then [Plat_MaskUnmaskMsi d i True] else []))
                       [0..<k])
         \<and> mask_bits (cap_msi (devices (fold (\<lambda>i t. snd (pcie_mask_unmask_msi_irq p d i True t)) [0..<k] s) d)) =
             (if msi_pvm_mask_reg (devices s d)
              then mask_bits (cap_msi (devices s d)) OR mask k
              else mask_bits (cap_msi (devices s d)))
         \<and> irq_handler_count (devices (fold (\<lambda>i t. snd (pcie_mask_unmask_msi_irq p d i True t)) [0..<k] s) d) =
             irq_handler_count (devices s d)
         \<and> msi_pvm_mask_reg (devices (fold (\<lambda>i t. snd (pcie_mask_unmask_msi_irq p d i True t)) [0..<k] s) d) =
             msi_pvm_mask_reg (devices s d)
         \<and> msi_is64bit (devices (fold (\<lambda>i t. snd (pcie_mask_unmask_msi_irq p d i True t)) [0..<k] s) d) =
             msi_is64bit (devices s d)
         \<and> ctrl (cap_msi (devices (fold (\<lambda>i t. snd (pcie_mask_unmask_msi_irq p d i True t)) [0..<k] s) d)) =
             ctrl (cap_msi (devices s d))"
  using assms
proof (induction k)
  case 0
  then show ?case by simp
next
  case (Suc k)
  define t where "t = fold (\<lambda>i t. snd (pcie_mask_unmask_msi_irq p d i True t)) [0..<k] s"
  have ih: "trace t =
           trace s
           @ concat (map (\<lambda>i. (if msi_pvm_mask_reg (devices s d)
                                then [Msi_write_pvm_mask d (mask_bits (cap_msi (devices s d)) OR mask (Suc i))]
                                else [])
                               @ (if supports_msi_masking p then [Plat_MaskUnmaskMsi d i True] else []))
                       [0..<k])
         \<and> mask_bits (cap_msi (devices t d)) =
             (if msi_pvm_mask_reg (devices s d)
              then mask_bits (cap_msi (devices s d)) OR mask k
              else mask_bits (cap_msi (devices s d)))
         \<and> irq_handler_count (devices t d) = irq_handler_count (devices s d)
         \<and> msi_pvm_mask_reg (devices t d) = msi_pvm_mask_reg (devices s d)
         \<and> msi_is64bit (devices t d) = msi_is64bit (devices s d)
         \<and> ctrl (cap_msi (devices t d)) = ctrl (cap_msi (devices s d))"
    unfolding t_def using Suc by simp
  have lt: "k < irq_handler_count (devices t d)" using ih Suc.prems by simp
  have unf: "fold (\<lambda>i t. snd (pcie_mask_unmask_msi_irq p d i True t)) [0..<Suc k] s =
             snd (pcie_mask_unmask_msi_irq p d k True t)"
    by (simp add: t_def)
  show ?case
    unfolding unf
    using mask_step_effect [OF lt, of p] mask_step_frame [of p d k t] ih
    by (simp add: mask_Suc_or)
qed

lemma mask_all_effect:
  "trace (pcie_mask_all_msi_vectors p d s) =
     trace s @ mask_all_events (supports_msi_masking p) (msi_pvm_mask_reg (devices s d)) d
                 (mask_bits (cap_msi (devices s d))) (irq_handler_count (devices s d))
   \<and> irq_handler_count (devices (pcie_mask_all_msi_vectors p d s) d) = irq_handler_count (devices s d)
   \<and> msi_is64bit (devices (pcie_mask_all_msi_vectors p d s) d) = msi_is64bit (devices s d)
   \<and> ctrl (cap_msi (devices (pcie_mask_all_msi_vectors p d s) d)) = ctrl (cap_msi (devices s d))"
  using mask_loop [of "irq_handler_count (devices s d)" s d p]
  by (simp add: pcie_mask_all_msi_vectors_def Let_def mask_all_events_def prim_defs)

lemma set_target_effect:
  "trace (pcie_set_msi_target p d a b s) =
     trace s
     @ [Msi_write_ctrl d (PCIE_CAP_MSI_CTRL_SET_ENB False (ctrl (cap_msi (devices s d))))]
     @ mask_all_events (supports_msi_masking p) (msi_pvm_mask_reg (devices s d)) d
         (mask_bits (cap_msi (devices s d))) (irq_handler_count (devices s d))
     @ [Msi_write_addr d (ucast (a AND 0xFFFFFFFF))]
     @ (if msi_is64bit (devices s d)
        then [Msi_write_addr_upper d (ucast (drop_bit 32 a)),
              Msi_write_data_64bit d (ucast (b AND 0xFFFF))]
        else [Msi_write_data_32bit d (ucast (b AND 0xFFFF))])
   \<and> irq_handler_count (devices (pcie_set_msi_target p d a b s) d) = irq_handler_count (devices s d)
   \<and> ctrl (cap_msi (devices (pcie_set_msi_target p d a b s) d)) =
       PCIE_CAP_MSI_CTRL_SET_ENB False (ctrl (cap_msi (devices s d)))"
proof -
  define s1 where "s1 = pcie_set_msi_enb d False s"
  have e1: "trace s1 = trace s @ [Msi_write_ctrl d (PCIE_CAP_MSI_CTRL_SET_ENB False (ctrl (cap_msi (devices s d))))]"
    and f1: "irq_handler_count (devices s1 d) = irq_handler_count (devices s d)"
            "msi_pvm_mask_reg (devices s1 d) = msi_pvm_mask_reg (devices s d)"
            "msi_is64bit (devices s1 d) = msi_is64bit (devices s d)"
            "mask_bits (cap_msi (devices s1 d)) = mask_bits (cap_msi (devices s d))"
            "ctrl (cap_msi (devices s1 d)) = PCIE_CAP_MSI_CTRL_SET_ENB False (ctrl (cap_msi (devices s d)))"
    by (simp_all add: s1_def pcie_set_msi_enb_def prim_defs)
  show ?thesis
    using mask_all_effect [of p d s1] e1 f1
    by (simp add: pcie_set_msi_target_def Let_def s1_def [symmetric] prim_defs)
qed

lemma mask_step_mode_block:
  "irq_mode (devices (snd (pcie_mask_unmask_msi_irq p d i True t)) d) = irq_mode (devices t d)
   \<and> msi_irq_block (devices (snd (pcie_mask_unmask_msi_irq p d i True t)) d) =
       msi_irq_block (devices t d)
   \<and> msi_pvm_mask_reg (devices (snd (pcie_mask_unmask_msi_irq p d i True t)) d) =
       msi_pvm_mask_reg (devices t d)"
  by (simp add: pcie_mask_unmask_msi_irq_def pcie_mask_unmask_msi_irq_locked_def Let_def
      prim_defs upd_hstate_fields)

lemma mode_block_loop:
  "irq_mode (devices (fold (\<lambda>i t. snd (pcie_mask_unmask_msi_irq p d i True t)) xs s) d) =
     irq_mode (devices s d)
   \<and> msi_irq_block (devices (fold (\<lambda>i t. snd (pcie_mask_unmask_msi_irq p d i True t)) xs s) d) =
       msi_irq_block (devices s d)
   \<and> msi_pvm_mask_reg (devices (fold (\<lambda>i t. snd (pcie_mask_unmask_msi_irq p d i True t)) xs s) d) =
       msi_pvm_mask_reg (devices s d)"
  by (induction xs arbitrary: s) (simp_all add: mask_step_mode_block)

lemma register_loop:
  "trace (fold (\<lambda>i. emit (Plat_RegisterMsiHandler d i (Some i))) xs s) =
     trace s @ map (\<lambda>i. Plat_RegisterMsiHandler d i (Some i)) xs
   \<and> devices (fold (\<lambda>i. emit (Plat_RegisterMsiHandler d i (Some i))) xs s) = devices s"
  by (induction xs arbitrary: s) (simp_all add: emit_fields)

lemma log2_uint_ceil_bounds:
  "1 \<le> n \<Longrightarrow>
   n \<le> 2 ^ log2_uint_ceil n \<and> (log2_uint_ceil n = 0 \<or> 2 ^ (log2_uint_ceil n - 1) < n)"
proof (induction n rule: log2_uint_ceil.induct)
  case (1 n)
  show ?case
  proof (cases "n \<le> 1")
    case True
    then show ?thesis using "1.prems" by (simp add: log2_uint_ceil.simps [of n])
  next
    case False
    define m where "m = (n + 1) div 2"
    define j where "j = log2_uint_ceil m"
    have m1: "1 \<le> m" using False by (simp add: m_def)
    have ih: "m \<le> 2 ^ j \<and> (j = 0 \<or> 2 ^ (j - 1) < m)"
      using "1.IH" [OF False] m1 by (simp add: m_def j_def)
    have l: "log2_uint_ceil n = Suc j"
      using False by (simp add: log2_uint_ceil.simps [of n] m_def j_def)
    have nm: "n \<le> 2 * m" and mn: "2 * m \<le> n + 1" by (simp_all add: m_def)
    have up: "n \<le> 2 ^ Suc j" using ih nm by simp
    have lo: "(2::nat) ^ j < n"
    proof (cases j)
      case 0
      then show ?thesis using False by simp
    next
      case (Suc i)
      with ih have "(2::nat) ^ i < m" by simp
      then have "2 * 2 ^ i + 2 \<le> 2 * m" by simp
      then show ?thesis using mn Suc by simp
    qed
    show ?thesis using up lo by (simp add: l)
  qed
qed

lemma log2_uint_ceil_le5:
  assumes "1 \<le> n" and "n \<le> PCIE_MAX_MSI_IRQS"
  shows "log2_uint_ceil n \<le> 5"
proof (rule ccontr)
  assume "\<not> log2_uint_ceil n \<le> 5"
  then have big: "5 \<le> log2_uint_ceil n - 1" and nz: "log2_uint_ceil n \<noteq> 0" by simp_all
  have "(2::nat) ^ 5 \<le> 2 ^ (log2_uint_ceil n - 1)"
    using big by (rule power_increasing) simp
  moreover have "(2::nat) ^ (log2_uint_ceil n - 1) < n"
    using log2_uint_ceil_bounds [OF assms(1)] nz by simp
  ultimately show False using assms(2) by (simp add: PCIE_MAX_MSI_IRQS_def)
qed

lemma ctrl_enb_set: "PCIE_CAP_MSI_CTRL_SET_ENB True c AND 0x0001 = 0x0001"
  by (simp add: PCIE_CAP_MSI_CTRL_SET_ENB_def bit.conj_disj_distrib2 and.assoc)

text \<open>
  C4 (as amended). Whenever \<^verbatim>\<open>pcie_set_irq_mode(dev, MSI, n)\<close> succeeds on a device that
  advertises at most 32 vectors, what it does, in this order, is: the platform grants the
  block (and the handler table is allocated); the control register is written with ENABLE
  cleared; every vector below \<^verbatim>\<open>n\<close> is masked in turn (its bit in the per-vector mask
  register when the device has one, at the platform when it can) and then the whole mask
  register is set; the low 32 bits of the block's target address are written; the upper
  32 bits are written exactly when the device is 64-bit capable; the 16-bit target data is
  written to the data register of the 64-bit or of the 32-bit form; the control register
  is written with the Multi-Message-Enable field set to \<^verbatim>\<open>log2_uint_ceil n\<close>, which is
  the rounded-up binary logarithm of \<^verbatim>\<open>n\<close> and at most 5; the dispatcher is registered
  with the platform for the vectors \<^verbatim>\<open>0 .. n - 1\<close>, one per handler slot, with the slot
  as cookie; and the control register is written with ENABLE set. The block may hold
  more than \<^verbatim>\<open>n\<close> vectors; those beyond \<^verbatim>\<open>n\<close> get no handler.
\<close>

theorem enter_msi_write_order:
  assumes "msi_max_irqs (devices s d) \<le> PCIE_MAX_MSI_IRQS"
      and "fst (pcie_set_irq_mode p d PCIE_IRQ_MODE_MSI n s) = NO_ERROR"
  shows
    "let v = devices s d;
         a = AllocMsiBlock p n (msi_is64bit v) False (msi_irq_block v);
         r = pcie_set_irq_mode p d PCIE_IRQ_MODE_MSI n s;
         l = log2_uint_ceil n;
         c1 = PCIE_CAP_MSI_CTRL_SET_ENB False (ctrl (cap_msi v));
         c2 = PCIE_CAP_MSI_CTRL_SET_MME l c1
     in trace (snd r) =
          trace s
          @ [Plat_AllocMsiBlock d n (msi_is64bit v) False NO_ERROR]
          @ (if n = 1 then [] else [Heap_calloc d n True])
          @ [Msi_write_ctrl d c1]
          @ mask_all_events (supports_msi_masking p) (msi_pvm_mask_reg v) d (mask_bits (cap_msi v)) n
          @ [Msi_write_addr d (ucast (tgt_addr (snd a) AND 0xFFFFFFFF))]
          @ (if msi_is64bit v
             then [Msi_write_addr_upper d (ucast (drop_bit 32 (tgt_addr (snd a)))),
                   Msi_write_data_64bit d (ucast (tgt_data (snd a) AND 0xFFFF))]
             else [Msi_write_data_32bit d (ucast (tgt_data (snd a) AND 0xFFFF))])
          @ [Msi_write_ctrl d c2]
          @ map (\<lambda>i. Plat_RegisterMsiHandler d i (Some i)) [0..<n]
          @ [Msi_write_ctrl d (PCIE_CAP_MSI_CTRL_SET_ENB True c2)]
        \<and> c1 AND 0x0001 = 0
        \<and> PCIE_CAP_MSI_CTRL_SET_ENB True c2 AND 0x0001 = 0x0001
        \<and> l \<le> 5 \<and> n \<le> 2 ^ l \<and> (l = 0 \<or> 2 ^ (l - 1) < n)
        \<and> irq_handler_count (devices (snd r) d) = n
        \<and> irq_mode (devices (snd r) d) = PCIE_IRQ_MODE_MSI
        \<and> msi_irq_block (devices (snd r) d) = snd a"
proof -
  define v where "v = devices s d"
  define a where "a = AllocMsiBlock p n (msi_is64bit v) False (msi_irq_block v)"
  define s1 where "s1 = emit (Plat_AllocMsiBlock d n (msi_is64bit v) False NO_ERROR)
                          (upd_dev d (\<lambda>x. x\<lparr>msi_irq_block := snd a\<rparr>) s)"
  define sh where "sh = snd (pcie_alloc_irq_handlers p d n s1)"
  define s2 where "s2 = upd_dev d (\<lambda>x. x\<lparr>irq_mode := PCIE_IRQ_MODE_MSI\<rparr>) sh"
  define s3 where "s3 = pcie_set_msi_target p d (tgt_addr (snd a)) (tgt_data (snd a)) s2"
  define s4 where "s4 = pcie_set_msi_multi_message_enb d n s3"
  define s5 where "s5 = fold (\<lambda>i. emit (Plat_RegisterMsiHandler d i (Some i))) [0..<n] s4"
  define s6 where "s6 = pcie_set_msi_enb d True s5"
  have ok: "fst (pcie_set_irq_mode p d PCIE_IRQ_MODE_MSI n s) = NO_ERROR" by (rule assms(2))
  have n1: "1 \<le> n"
    using ok by (auto simp: pcie_set_irq_mode_def pcie_set_irq_mode_internal_def split: if_splits)
  have enter: "pcie_set_irq_mode p d PCIE_IRQ_MODE_MSI n s = pcie_enter_msi_irq_mode p d n s"
    using ok by (auto simp: pcie_set_irq_mode_def pcie_set_irq_mode_internal_def split: if_splits)
  have guards: "msi_cfg v \<and> supports_msi p \<and> n \<le> msi_max_irqs v"
    using ok unfolding enter v_def
    by (auto simp: pcie_enter_msi_irq_mode_def split: if_splits)
  have oka: "fst a = NO_ERROR"
    using ok guards unfolding enter
    by (auto simp: pcie_enter_msi_irq_mode_def Let_def a_def v_def split: if_splits)
  have okh: "fst (pcie_alloc_irq_handlers p d n s1) = NO_ERROR"
    using ok guards oka unfolding enter
    by (auto simp: pcie_enter_msi_irq_mode_def Let_def a_def s1_def v_def split: if_splits)
  have mem: "n = 1 \<or> calloc_succeeds p n"
    using okh by (auto simp: pcie_alloc_irq_handlers_def split: if_splits)
  have r: "pcie_enter_msi_irq_mode p d n s = (NO_ERROR, s6)"
  proof -
    have c5: "irq_handler_count (devices s4 d) = n"
      using alloc_handlers_success [OF mem, of d s1]
        set_target_effect [of p d "tgt_addr (snd a)" "tgt_data (snd a)" s2]
      by (simp add: s4_def s3_def s2_def sh_def pcie_set_msi_multi_message_enb_def Let_def
          prim_defs)
    have b2: "msi_irq_block (devices s2 d) = snd a"
      using alloc_handlers_success [OF mem, of d s1]
      by (simp add: s2_def sh_def s1_def upd_dev_fields emit_fields)
    show ?thesis
      using guards oka okh c5 b2
      unfolding v_def
      by (simp add: pcie_enter_msi_irq_mode_def Let_def a_def [unfolded v_def, symmetric]
          s1_def [unfolded v_def, symmetric] sh_def [symmetric] s2_def [symmetric]
          s3_def [symmetric] s4_def [symmetric] s5_def [symmetric] s6_def [symmetric])
  qed
  have t1: "trace s1 = trace s @ [Plat_AllocMsiBlock d n (msi_is64bit v) False NO_ERROR]"
    and f1: "cap_msi (devices s1 d) = cap_msi v"
            "msi_pvm_mask_reg (devices s1 d) = msi_pvm_mask_reg v"
            "msi_is64bit (devices s1 d) = msi_is64bit v"
            "msi_irq_block (devices s1 d) = snd a"
    by (simp_all add: s1_def v_def upd_dev_fields emit_fields)
  have th: "trace sh = trace s1 @ (if n = 1 then [] else [Heap_calloc d n True])"
    and fh: "irq_handler_count (devices sh d) = n"
            "cap_msi (devices sh d) = cap_msi v"
            "msi_pvm_mask_reg (devices sh d) = msi_pvm_mask_reg v"
            "msi_is64bit (devices sh d) = msi_is64bit v"
            "msi_irq_block (devices sh d) = snd a"
    using alloc_handlers_success [OF mem, of d s1] f1 by (simp_all add: sh_def)
  have t2: "trace s2 = trace sh"
    and f2: "irq_handler_count (devices s2 d) = n"
            "cap_msi (devices s2 d) = cap_msi v"
            "msi_pvm_mask_reg (devices s2 d) = msi_pvm_mask_reg v"
            "msi_is64bit (devices s2 d) = msi_is64bit v"
            "msi_irq_block (devices s2 d) = snd a"
            "irq_mode (devices s2 d) = PCIE_IRQ_MODE_MSI"
    using fh by (simp_all add: s2_def upd_dev_fields)
  define c1 where "c1 = PCIE_CAP_MSI_CTRL_SET_ENB False (ctrl (cap_msi v))"
  define c2 where "c2 = PCIE_CAP_MSI_CTRL_SET_MME (log2_uint_ceil n) c1"
  have t3: "trace s3 =
      trace s2 @ [Msi_write_ctrl d c1]
      @ mask_all_events (supports_msi_masking p) (msi_pvm_mask_reg v) d (mask_bits (cap_msi v)) n
      @ [Msi_write_addr d (ucast (tgt_addr (snd a) AND 0xFFFFFFFF))]
      @ (if msi_is64bit v
         then [Msi_write_addr_upper d (ucast (drop_bit 32 (tgt_addr (snd a)))),
               Msi_write_data_64bit d (ucast (tgt_data (snd a) AND 0xFFFF))]
         else [Msi_write_data_32bit d (ucast (tgt_data (snd a) AND 0xFFFF))])"
    and f3: "irq_handler_count (devices s3 d) = n" "ctrl (cap_msi (devices s3 d)) = c1"
    using set_target_effect [of p d "tgt_addr (snd a)" "tgt_data (snd a)" s2] f2
    by (simp_all add: s3_def c1_def)
  have m3: "irq_mode (devices s3 d) = PCIE_IRQ_MODE_MSI \<and> msi_irq_block (devices s3 d) = snd a"
    using f2
    by (simp add: s3_def pcie_set_msi_target_def pcie_set_msi_enb_def Let_def prim_defs
        pcie_mask_all_msi_vectors_def mode_block_loop)
  have t4: "trace s4 = trace s3 @ [Msi_write_ctrl d c2]"
    and f4: "irq_handler_count (devices s4 d) = n" "ctrl (cap_msi (devices s4 d)) = c2"
            "irq_mode (devices s4 d) = PCIE_IRQ_MODE_MSI" "msi_irq_block (devices s4 d) = snd a"
    using f3 m3 by (simp_all add: s4_def pcie_set_msi_multi_message_enb_def Let_def prim_defs c2_def)
  have t5: "trace s5 = trace s4 @ map (\<lambda>i. Plat_RegisterMsiHandler d i (Some i)) [0..<n]"
    and f5: "devices s5 = devices s4"
    using register_loop [of d "[0..<n]" s4] by (simp_all add: s5_def)
  have t6: "trace s6 = trace s5 @ [Msi_write_ctrl d (PCIE_CAP_MSI_CTRL_SET_ENB True c2)]"
    and f6: "irq_handler_count (devices s6 d) = n" "irq_mode (devices s6 d) = PCIE_IRQ_MODE_MSI"
            "msi_irq_block (devices s6 d) = snd a"
    using f4 f5 by (simp_all add: s6_def pcie_set_msi_enb_def prim_defs)
  have nmax: "n \<le> PCIE_MAX_MSI_IRQS" using guards assms(1) by (simp add: v_def)
  have lg: "log2_uint_ceil n \<le> 5 \<and> n \<le> 2 ^ log2_uint_ceil n
            \<and> (log2_uint_ceil n = 0 \<or> 2 ^ (log2_uint_ceil n - 1) < n)"
    using log2_uint_ceil_le5 [OF n1 nmax] log2_uint_ceil_bounds [OF n1] by simp
  have bits: "c1 AND 0x0001 = 0 \<and> PCIE_CAP_MSI_CTRL_SET_ENB True c2 AND 0x0001 = 0x0001"
    by (simp add: c1_def ctrl_enb_clear ctrl_enb_set)
  show ?thesis
    unfolding Let_def enter r
    using t1 th t2 t3 t4 t5 t6 f6 lg bits
    by (simp add: v_def [symmetric] a_def c1_def [symmetric] c2_def [symmetric])
qed

lemma msi_scenario_facts:
  "msi_max_irqs (devices machine0 0) \<le> PCIE_MAX_MSI_IRQS
   \<and> fst (pcie_set_irq_mode platform0 0 PCIE_IRQ_MODE_MSI 4 machine0) = NO_ERROR
   \<and> supports_msi_masking platform0
   \<and> snd (AllocMsiBlock platform0 4 True False (msi_irq_block (devices machine0 0))) =
       \<lparr>allocated = True, num_irq = 4, tgt_addr = 0xFEE00000, tgt_data = 0x40\<rparr>
   \<and> mask_all_events True True 0 0 4 =
       [Msi_write_pvm_mask 0 0x1, Plat_MaskUnmaskMsi 0 0 True,
        Msi_write_pvm_mask 0 0x3, Plat_MaskUnmaskMsi 0 1 True,
        Msi_write_pvm_mask 0 0x7, Plat_MaskUnmaskMsi 0 2 True,
        Msi_write_pvm_mask 0 0xF, Plat_MaskUnmaskMsi 0 3 True,
        Msi_write_pvm_mask 0 0xFFFFFFFF]
   \<and> log2_uint_ceil 4 = 2
   \<and> PCIE_CAP_MSI_CTRL_SET_ENB False 0 = 0
   \<and> PCIE_CAP_MSI_CTRL_SET_MME 2 0 = 0x20
   \<and> PCIE_CAP_MSI_CTRL_SET_ENB True 0x20 = 0x21
   \<and> [0..<4] = [0, 1, 2, 3]"
  by code_simp

theorem enter_msi_write_order_witness:
  "fst (pcie_set_irq_mode platform0 0 PCIE_IRQ_MODE_MSI 4 machine0) = NO_ERROR
   \<and> trace (snd (pcie_set_irq_mode platform0 0 PCIE_IRQ_MODE_MSI 4 machine0)) =
       [Plat_AllocMsiBlock 0 4 True False NO_ERROR, Heap_calloc 0 4 True,
        Msi_write_ctrl 0 0,
        Msi_write_pvm_mask 0 0x1, Plat_MaskUnmaskMsi 0 0 True,
        Msi_write_pvm_mask 0 0x3, Plat_MaskUnmaskMsi 0 1 True,
        Msi_write_pvm_mask 0 0x7, Plat_MaskUnmaskMsi 0 2 True,
        Msi_write_pvm_mask 0 0xF, Plat_MaskUnmaskMsi 0 3 True,
        Msi_write_pvm_mask 0 0xFFFFFFFF,
        Msi_write_addr 0 0xFEE00000, Msi_write_addr_upper 0 0, Msi_write_data_64bit 0 0x40,
        Msi_write_ctrl 0 0x20,
        Plat_RegisterMsiHandler 0 0 (Some 0), Plat_RegisterMsiHandler 0 1 (Some 1),
        Plat_RegisterMsiHandler 0 2 (Some 2), Plat_RegisterMsiHandler 0 3 (Some 3),
        Msi_write_ctrl 0 0x21]"
proof -
  have mx: "msi_max_irqs (devices machine0 0) \<le> PCIE_MAX_MSI_IRQS"
    and ok: "fst (pcie_set_irq_mode platform0 0 PCIE_IRQ_MODE_MSI 4 machine0) = NO_ERROR"
    using msi_scenario_facts by simp_all
  have w: "ucast ((0xFEE00000 :: 64 word) AND 0xFFFFFFFF) = (0xFEE00000 :: 32 word)
           \<and> ucast (drop_bit 32 (0xFEE00000 :: 64 word)) = (0 :: 32 word)
           \<and> ucast ((0x40 :: 32 word) AND 0xFFFF) = (0x40 :: 16 word)"
    by simp
  from enter_msi_write_order [OF mx ok] msi_scenario_facts machine0_facts w
  show ?thesis by (simp add: Let_def)
qed

text \<open>
  On the platform that grants blocks in powers of two, a request for 3 vectors succeeds
  with a block of 4 vectors and 3 handler slots; the dispatcher is registered for vectors
  0, 1 and 2 and not for vector 3 of the block.
\<close>

theorem enter_msi_block_larger_counterexample:
  "fst (pcie_set_irq_mode platform_pow2 0 PCIE_IRQ_MODE_MSI 3 machine0) = NO_ERROR
   \<and> num_irq (msi_irq_block
        (devices (snd (pcie_set_irq_mode platform_pow2 0 PCIE_IRQ_MODE_MSI 3 machine0)) 0)) = 4
   \<and> irq_handler_count
        (devices (snd (pcie_set_irq_mode platform_pow2 0 PCIE_IRQ_MODE_MSI 3 machine0)) 0) = 3
   \<and> registered_vectors
        (trace (snd (pcie_set_irq_mode platform_pow2 0 PCIE_IRQ_MODE_MSI 3 machine0))) = [0, 1, 2]"
  by code_simp

end
